theory Spec2Isabelle
  imports Main "HOL-Library.Sublist" "HOL-Library.Char_ord" "HOL-Library.List_Lexorder"
begin


section \<open>The OpenSSL upgrade agent (openssl_agent_all_unix_and_windows.py)\<close>

text \<open>
  The agent is a sequential script that probes the host, runs external commands and
  copies files. The embedding makes the host explicit: every probe and every command
  is a field of a \<open>host\<close> record that reads an opaque host state \<open>'w\<close> (and, where
  the call can change the host, returns the next state). Every agent function returns
  its value, the list of events it emitted in order, and the host state it leaves.
  Python exceptions that escape a function are values of type \<open>error\<close>.
  Strings are lists of code points below 256. Timestamps, console prints and the text
  payload of audit records are left out; an audit record is its step label, its
  command text and its exit code.
\<close>

subsection \<open>Python string operations used by the agent\<close>

definition is_space :: "char \<Rightarrow> bool" where
  \<comment> \<open>str.isspace on one code point; the same set drives strip(), split() and the regex class \<open>\\s\<close>\<close>
  "is_space c = (c \<in> set [CHR 0x09, CHR 0x0A, CHR 0x0B, CHR 0x0C, CHR 0x0D,
                           CHR 0x1C, CHR 0x1D, CHR 0x1E, CHR 0x1F, CHR 0x20,
                           CHR 0x85, CHR 0xA0])"

definition is_linebreak :: "char \<Rightarrow> bool" where
  \<comment> \<open>the line boundaries of str.splitlines()\<close>
  "is_linebreak c = (c \<in> set [CHR 0x0A, CHR 0x0D, CHR 0x0B, CHR 0x0C,
                               CHR 0x1C, CHR 0x1D, CHR 0x1E, CHR 0x85])"

definition py_strip :: "string \<Rightarrow> string" where
  "py_strip s = rev (dropWhile is_space (rev (dropWhile is_space s)))"

fun split_on :: "char \<Rightarrow> string \<Rightarrow> string list" where
  \<comment> \<open>s.split(c) for a one-character separator\<close>
  "split_on c [] = [[]]"
| "split_on c (x # xs) =
     (if x = c then [] # split_on c xs
      else (case split_on c xs of [] \<Rightarrow> [[x]] | f # fs \<Rightarrow> (x # f) # fs))"

fun split_ws :: "string \<Rightarrow> string list" where
  \<comment> \<open>s.split() with no argument: the maximal runs of non-whitespace\<close>
  "split_ws [] = []"
| "split_ws (x # xs) =
     (if is_space x then split_ws xs
      else (case xs of
              [] \<Rightarrow> [[x]]
            | y # _ \<Rightarrow>
                if is_space y then [x] # split_ws xs
                else (case split_ws xs of [] \<Rightarrow> [[x]] | t # ts \<Rightarrow> (x # t) # ts)))"

fun splitlines_aux :: "bool \<Rightarrow> string \<Rightarrow> string \<Rightarrow> string list" where
  \<comment> \<open>the flag says that the previous character was a carriage return, so that a line
      feed right after it belongs to the same boundary; \<open>cur\<close> is the current line, reversed\<close>
  "splitlines_aux skip cur [] = (if cur = [] then [] else [rev cur])"
| "splitlines_aux skip cur (x # xs) =
     (if skip \<and> x = CHR 0x0A then splitlines_aux False cur xs
      else if is_linebreak x then rev cur # splitlines_aux (x = CHR 0x0D) [] xs
      else splitlines_aux False (x # cur) xs)"

definition splitlines :: "string \<Rightarrow> string list" where
  "splitlines s = splitlines_aux False [] s"

definition str_in :: "string \<Rightarrow> string \<Rightarrow> bool" where
  \<comment> \<open>Python's \<open>sub in s\<close> on strings\<close>
  "str_in sub s = sublist sub s"

fun join :: "string \<Rightarrow> string list \<Rightarrow> string" where
  \<comment> \<open>sep.join(xs)\<close>
  "join sep [] = []"
| "join sep [x] = x"
| "join sep (x # y # ys) = x @ sep @ join sep (y # ys)"

definition lower_char :: "char \<Rightarrow> char" where
  "lower_char c =
     (let n = (of_char c :: nat)
      in if (65 \<le> n \<and> n \<le> 90) \<or> (192 \<le> n \<and> n \<le> 222 \<and> n \<noteq> 215)
         then char_of (n + 32) else c)"

definition py_lower :: "string \<Rightarrow> string" where
  "py_lower s = map lower_char s"

definition replace_char :: "char \<Rightarrow> char \<Rightarrow> string \<Rightarrow> string" where
  "replace_char a b s = map (\<lambda>c. if c = a then b else c) s"

datatype error = ValueError | IndexError | OSError | StopIteration

fun list_index :: "'a list \<Rightarrow> 'a \<Rightarrow> error + nat" where
  \<comment> \<open>xs.index(v): the first position of v, ValueError when there is none\<close>
  "list_index [] v = Inl ValueError"
| "list_index (x # xs) v =
     (if x = v then Inr 0
      else (case list_index xs v of Inl e \<Rightarrow> Inl e | Inr i \<Rightarrow> Inr (Suc i)))"

definition item :: "'a list \<Rightarrow> nat \<Rightarrow> error + 'a" where
  \<comment> \<open>xs[i] for a non-negative index\<close>
  "item xs i = (if i < length xs then Inr (xs ! i) else Inl IndexError)"

definition truthy :: "string option \<Rightarrow> bool" where
  \<comment> \<open>the truth value of an optional string: None and the empty string are false\<close>
  "truthy v = (case v of None \<Rightarrow> False | Some s \<Rightarrow> s \<noteq> [])"

subsection \<open>The host and the events of a run\<close>

record proc =
  returncode :: int
  out :: string
  err :: string

record cmd_result =
  r_cmd :: string
  r_exit :: int
  r_stdout :: string
  r_stderr :: string

datatype event =
    Exec "string list" "string option"
  | Log "string option" string int
  | Snapshot string string
  | Prompt "string list"
  | Copy string string
  | Sidecar string
  | Archive string
  | Download string
  | Write_file string

text \<open>
  \<open>Exec argv cwd\<close>: subprocess.run was called with this argument vector.
  \<open>Log step cmd exit\<close>: log_step was handed a record.
  \<open>Snapshot when name\<close>: log_snapshot_file wrote a capture.
  \<open>Prompt items\<close>: confirm_upgrade listed the items it is about to upgrade.
  \<open>Copy src dst\<close>, \<open>Sidecar path\<close>, \<open>Archive path\<close>: the file operations of prepare_backup.
  \<open>Download url\<close>: the urllib fallback was tried. \<open>Write_file path\<close>: a file was written.
\<close>

record 'w host =
  os_name :: string
  which :: "'w \<Rightarrow> string \<Rightarrow> string option"
  subprocess_run :: "'w \<Rightarrow> string list \<Rightarrow> string option \<Rightarrow> (string + proc) \<times> 'w"
  path_exists :: "'w \<Rightarrow> string \<Rightarrow> bool"
  isdir :: "'w \<Rightarrow> string \<Rightarrow> bool"
  glob :: "'w \<Rightarrow> string \<Rightarrow> string list option"
  path_name :: "string \<Rightarrow> string"
  path_str :: "string \<Rightarrow> string"
  copy2 :: "'w \<Rightarrow> string \<Rightarrow> bool"
  mk_tar :: "'w \<Rightarrow> string \<Rightarrow> string option"
  input_line :: "'w \<Rightarrow> string option \<times> 'w"
  mkdtemp :: "'w \<Rightarrow> string option \<times> 'w"
  urlopen_save :: "'w \<Rightarrow> string \<Rightarrow> string \<Rightarrow> string option \<times> 'w"
  first_srcdir :: "'w \<Rightarrow> string \<Rightarrow> string option"
  cpu_count :: "nat option"
  write_text :: "'w \<Rightarrow> string \<Rightarrow> string \<Rightarrow> string option \<times> 'w"
  system_root :: "string option"

text \<open>
  \<open>which\<close> is shutil.which; \<open>subprocess_run\<close> is subprocess.run with captured output
  (\<open>Inl msg\<close> when it raises); \<open>path_exists\<close> and \<open>isdir\<close> are os.path.exists and
  os.path.isdir; \<open>glob\<close> is glob.glob (None when it raises); \<open>path_name\<close> is the final
  component of a path (pathlib's \<open>name\<close>) and \<open>path_str\<close> the text of a path after pathlib
  has normalised it; \<open>copy2\<close> says whether shutil.copy2 from a
  source succeeds; \<open>mk_tar\<close> is the tarfile archive (the message when it raises);
  \<open>input_line\<close> is input() (None at end of input); \<open>mkdtemp\<close> is tempfile.mkdtemp (None
  when it raises); \<open>urlopen_save\<close> is the urllib download to a file (the message when
  it raises); \<open>first_srcdir\<close> is the first match of \<open>openssl-*\<close> in the work directory
  (None when there is none); \<open>write_text\<close> writes a file (the message when it raises);
  \<open>system_root\<close> is the environment variable SystemRoot.
\<close>

definition run_cmd ::
  "'w host \<Rightarrow> string list \<Rightarrow> string option \<Rightarrow> bool \<Rightarrow> 'w \<Rightarrow> cmd_result \<times> event list \<times> 'w" where
  "run_cmd h cmd0 cwd sudo w =
     (let cmd = (if sudo \<and> os_name h \<noteq> ''nt'' then ''sudo'' # cmd0 else cmd0);
          (res, w') = subprocess_run h w cmd cwd
      in (case res of
            Inr p \<Rightarrow> (\<lparr>r_cmd = join '' '' cmd, r_exit = returncode p,
                       r_stdout = py_strip (out p), r_stderr = py_strip (err p)\<rparr>,
                      [Exec cmd cwd], w')
          | Inl msg \<Rightarrow> (\<lparr>r_cmd = join '' '' cmd, r_exit = 255,
                         r_stdout = [], r_stderr = msg\<rparr>,
                        [Exec cmd cwd], w')))"

definition log_of :: "cmd_result \<Rightarrow> event" where
  \<comment> \<open>log_step on the record of a command\<close>
  "log_of r = Log None (r_cmd r) (r_exit r)"

subsection \<open>resolve_package_owner\<close>

definition segment_after :: "string list \<Rightarrow> string \<Rightarrow> error + string option" where
  \<comment> \<open>\<open>idx = parts.index(marker); if idx + 1 < len(parts): return parts[idx+1]\<close>\<close>
  "segment_after parts marker =
     (case list_index parts marker of
        Inl e \<Rightarrow> Inl e
      | Inr idx \<Rightarrow>
          if idx + 1 < length parts
          then (case item parts (idx + 1) of Inl e \<Rightarrow> Inl e | Inr v \<Rightarrow> Inr (Some v))
          else Inr None)"

definition catch_ValueError :: "error + string option \<Rightarrow> error + string option" where
  \<comment> \<open>\<open>try: ... except ValueError: pass\<close>, after which the function returns None\<close>
  "catch_ValueError r = (case r of Inl ValueError \<Rightarrow> Inr None | _ \<Rightarrow> r)"

fun lslpp_owner :: "string \<Rightarrow> string list \<Rightarrow> error + string option" where
  \<comment> \<open>the loop over the lines of the lslpp output\<close>
  "lslpp_owner lib_path [] = Inr None"
| "lslpp_owner lib_path (line # rest) =
     (if str_in lib_path line
      then (let parts = split_ws line
            in if length parts \<ge> 2
               then (case item parts 1 of Inl e \<Rightarrow> Inl e | Inr v \<Rightarrow> Inr (Some v))
               else lslpp_owner lib_path rest)
      else lslpp_owner lib_path rest)"

definition resolve_package_owner ::
  "'w host \<Rightarrow> string \<Rightarrow> string \<Rightarrow> 'w \<Rightarrow> (error + string option) \<times> event list \<times> 'w" where
  "resolve_package_owner h platform lib_path w =
     (if platform = ''linux'' then
        (if which h w ''dpkg'' \<noteq> None then
           (let (r, ev, w') = run_cmd h [''dpkg'', ''-S'', lib_path] None False w
            in if r_exit r = 0 \<and> str_in '':'' (r_stdout r)
               then (case item (split_on CHR '':'' (r_stdout r)) 0 of
                       Inl e \<Rightarrow> (Inl e, ev, w')
                     | Inr v \<Rightarrow> (Inr (Some (py_strip v)), ev, w'))
               else (Inr None, ev, w'))
         else if which h w ''rpm'' \<noteq> None then
           (let (r, ev, w') = run_cmd h [''rpm'', ''-qf'', lib_path] None False w
            in if r_exit r = 0 then (Inr (Some (py_strip (r_stdout r))), ev, w')
               else (Inr None, ev, w'))
         else (Inr None, [], w))
      else if platform = ''darwin'' then
        (if str_in ''Cellar'' lib_path
         then (catch_ValueError (segment_after (split_on CHR ''/'' lib_path) ''Cellar''), [], w)
         else (Inr None, [], w))
      else if platform = ''aix'' then
        (let (r, ev, w') = run_cmd h [''lslpp'', ''-w'', lib_path] None False w
         in (lslpp_owner lib_path (splitlines (r_stdout r)), ev, w'))
      else if platform = ''sunos'' then
        (if which h w ''pkg'' \<noteq> None then
           (let (r, ev, w') =
                  run_cmd h [''pkg'', ''search'', ''-l'', ''-H'', ''-o'', ''pkg.name'', lib_path]
                    None False w
            in if r_exit r = 0 \<and> py_strip (r_stdout r) \<noteq> []
               then (case item (split_ws (py_strip (r_stdout r))) 0 of
                       Inl e \<Rightarrow> (Inl e, ev, w')
                     | Inr v \<Rightarrow> (Inr (Some v), ev, w'))
               else (Inr None, ev, w'))
         else if which h w ''pkgchk'' \<noteq> None then
           (let (r, ev, w') = run_cmd h [''pkgchk'', ''-l'', ''-p'', lib_path] None False w
            in (Inr None, ev, w'))
         else (Inr None, [], w))
      else if platform = ''windows'' then
        (if str_in ''chocolatey'' (py_lower lib_path) \<and> str_in ''lib'' (py_lower lib_path)
         then (catch_ValueError
                 (segment_after (split_on CHR ''/'' (replace_char CHR 0x5C CHR ''/'' lib_path))
                    ''lib''), [], w)
         else (Inr None, [], w))
      else (Inr None, [], w))"

subsection \<open>Detection\<close>

record agent =
  app_path :: "string option"
  target_version :: string
  dry_run :: bool
  health_url :: "string option"
  force :: bool
  backup_dir :: string
  log_dir :: string

text \<open>
  The command-line arguments together with the two per-run directories that the
  constructor derives from them (\<open>backup_dir\<close> and \<open>log_dir\<close> already carry the run id).
\<close>

definition inspect_with ::
  "'w host \<Rightarrow> string list \<Rightarrow> string \<Rightarrow> 'w \<Rightarrow> cmd_result \<times> event list \<times> 'w" where
  \<comment> \<open>\<open>r = run_cmd(cmd); self.log_step(r); self.log_snapshot_file('pre', name, ...); return r\<close>\<close>
  "inspect_with h cmd name w =
     (let (r, ev, w') = run_cmd h cmd None False w
      in (r, ev @ [log_of r, Snapshot ''pre'' name], w'))"

definition detect_openssl_cli :: "'w host \<Rightarrow> 'w \<Rightarrow> cmd_result \<times> event list \<times> 'w" where
  "detect_openssl_cli h w =
     (if which h w ''openssl'' \<noteq> None
      then inspect_with h [''openssl'', ''version'', ''-a''] ''openssl-version.txt'' w
      else (\<lparr>r_cmd = ''openssl not found'', r_exit = 254, r_stdout = [],
             r_stderr = ''openssl not in PATH''\<rparr>,
            [Log (Some ''detect-openssl-cli'') ''openssl not found'' 254], w))"

definition pm_candidates :: "string list" where
  "pm_candidates = [''apt'', ''dnf'', ''yum'', ''apk'', ''zypper'', ''brew'', ''pkg'', ''pkgutil'',
                    ''swinstall'', ''pkgadd'', ''installp'', ''rpm'', ''dpkg'', ''choco'', ''winget'']"

definition detect_package_managers :: "'w host \<Rightarrow> 'w \<Rightarrow> string list \<times> event list \<times> 'w" where
  "detect_package_managers h w =
     (filter (\<lambda>p. which h w p \<noteq> None) pm_candidates,
      [Log (Some ''detect-package-managers'') ''detected'' 0], w)"

definition detect_application_linking ::
  "'w host \<Rightarrow> string \<Rightarrow> string \<Rightarrow> 'w \<Rightarrow> cmd_result \<times> event list \<times> 'w" where
  "detect_application_linking h platform app w =
     (if \<not> path_exists h w app then
        (\<lparr>r_cmd = ''app not found: '' @ app, r_exit = 254, r_stdout = [],
          r_stderr = ''app not found''\<rparr>,
         [Log (Some ''detect-app'') (''app not found: '' @ app) 254], w)
      else if platform \<in> set [''linux'', ''darwin'', ''sunos'', ''aix'', ''hp-ux'']
              \<and> which h w ''ldd'' \<noteq> None then
        inspect_with h [''ldd'', path_str h app] ''ldd-app.txt'' w
      else if platform \<in> set [''linux'', ''darwin'', ''sunos'', ''aix'', ''hp-ux'']
              \<and> platform = ''darwin'' \<and> which h w ''otool'' \<noteq> None then
        inspect_with h [''otool'', ''-L'', path_str h app] ''otool-app.txt'' w
      else if platform \<in> set [''linux'', ''darwin'', ''sunos'', ''aix'', ''hp-ux'']
              \<and> platform = ''aix'' \<and> which h w ''dump'' \<noteq> None then
        inspect_with h [''dump'', ''-H'', path_str h app] ''dump-app.txt'' w
      else if platform \<in> set [''linux'', ''darwin'', ''sunos'', ''aix'', ''hp-ux'']
              \<and> platform = ''hp-ux'' \<and> which h w ''chatr'' \<noteq> None then
        inspect_with h [''chatr'', path_str h app] ''chatr-app.txt'' w
      else if platform = ''windows'' then
        inspect_with h
          [''powershell'', ''-Command'',
           ''Get-Process -FileVersionInfo (Get-Item '' @ [CHR 0x27] @ path_str h app @ [CHR 0x27]
             @ '').VersionInfo | Out-String'']
          ''windows-app-info.txt'' w
      else
        (\<lparr>r_cmd = ''no-linking-tool-found'', r_exit = 253, r_stdout = [],
          r_stderr = ''linker inspection tools not found''\<rparr>,
         [Log (Some ''detect-app'') ''no-linking-tool-found'' 253], w))"

subsection \<open>Confirmation and strategy\<close>

definition confirm_upgrade ::
  "'w host \<Rightarrow> agent \<Rightarrow> string list \<Rightarrow> 'w \<Rightarrow> bool \<times> event list \<times> 'w" where
  "confirm_upgrade h a items w =
     (if force a then (True, [Prompt items], w)
      else (let (line, w') = input_line h w
            in case line of
                 None \<Rightarrow> (False, [Prompt items], w')
               | Some choice \<Rightarrow> (py_lower (py_strip choice) = ''y'', [Prompt items], w')))"

record strategy =
  s_type :: string
  s_reason :: string

definition repr_list :: "string list \<Rightarrow> string" where
  \<comment> \<open>how an f-string prints a list of plain names\<close>
  "repr_list xs = ''['' @ join '', '' (map (\<lambda>s. [CHR 0x27] @ s @ [CHR 0x27]) xs) @ '']''"

definition first_class :: "string list" where
  "first_class = [''apt'', ''dnf'', ''yum'', ''apk'', ''zypper'', ''brew'', ''pkg'']"

definition choose_strategy :: "string list \<Rightarrow> strategy" where
  \<comment> \<open>step 5 of decide_and_execute\<close>
  "choose_strategy pms =
     (if list_ex (\<lambda>pm. pm \<in> set pms) first_class
      then \<lparr>s_type = ''package-manager'',
            s_reason = ''package manager(s) found: '' @ repr_list pms\<rparr>
      else \<lparr>s_type = ''side-install'',
            s_reason = ''no known package manager that provides target version; using side-install''\<rparr>)"

subsection \<open>side_install_from_source\<close>

record build_result =
  b_status :: string
  b_prefix :: "string option"
  b_steps :: "cmd_result list"

text \<open>
  The result dictionary: it always has the keys \<open>status\<close> and \<open>steps\<close>; \<open>b_prefix\<close> is
  None when the dictionary has no key \<open>prefix\<close>.
\<close>

definition failed :: "cmd_result list \<Rightarrow> build_result" where
  \<comment> \<open>\<open>return result\<close> while status is still \<open>error\<close>\<close>
  "failed steps = \<lparr>b_status = ''error'', b_prefix = None, b_steps = steps\<rparr>"

definition path_join :: "string \<Rightarrow> string \<Rightarrow> string" where
  \<comment> \<open>os.path.join of a directory and a relative name, POSIX separator\<close>
  "path_join a b = (if a = [] then b else if last a = CHR ''/'' then a @ b else a @ ''/'' @ b)"

fun digits :: "nat \<Rightarrow> nat \<Rightarrow> string" where
  \<comment> \<open>the decimal digits of n; the first argument bounds the number of digits\<close>
  "digits 0 n = []"
| "digits (Suc k) n =
     (if n < 10 then [char_of (48 + n)] else digits k (n div 10) @ [char_of (48 + n mod 10)])"

definition str_nat :: "nat \<Rightarrow> string" where
  \<comment> \<open>str(n); n has at most n + 1 digits\<close>
  "str_nat n = digits (Suc n) n"

definition si_register ::
  "'w host \<Rightarrow> string \<Rightarrow> string \<Rightarrow> cmd_result list \<Rightarrow> 'w \<Rightarrow> build_result \<times> event list \<times> 'w" where
  \<comment> \<open>stage 7 and the final \<open>status = ok; set the key prefix; return\<close>\<close>
  "si_register h version pfx steps w =
     (if isdir h w ''/etc/ld.so.conf.d'' then
        (let conf_path = ''/etc/ld.so.conf.d/openssl-'' @ version @ ''.conf'';
             (werr, w1) = write_text h w conf_path (path_join pfx ''lib'' @ [CHR 0x0A])
         in case werr of
              None \<Rightarrow>
                (let e1 = \<lparr>r_cmd = ''write '' @ conf_path, r_exit = 0, r_stdout = [], r_stderr = []\<rparr>
                 in if which h w1 ''ldconfig'' \<noteq> None then
                      (let (r, ev, w2) = run_cmd h [''ldconfig''] None True w1
                       in (\<lparr>b_status = ''ok'', b_prefix = Some pfx, b_steps = steps @ [e1, r]\<rparr>,
                           [Write_file conf_path, log_of e1] @ ev @ [log_of r], w2))
                    else
                      (\<lparr>b_status = ''ok'', b_prefix = Some pfx, b_steps = steps @ [e1]\<rparr>,
                       [Write_file conf_path, log_of e1], w1))
            | Some msg \<Rightarrow>
                (let e1 = \<lparr>r_cmd = ''write-ldconf-failed'', r_exit = 1, r_stdout = [], r_stderr = msg\<rparr>
                 in (\<lparr>b_status = ''ok'', b_prefix = Some pfx, b_steps = steps @ [e1]\<rparr>,
                     [log_of e1], w1)))
      else (\<lparr>b_status = ''ok'', b_prefix = Some pfx, b_steps = steps\<rparr>, [], w))"

definition si_install ::
  "'w host \<Rightarrow> string \<Rightarrow> string \<Rightarrow> string \<Rightarrow> cmd_result list \<Rightarrow> 'w
     \<Rightarrow> build_result \<times> event list \<times> 'w" where
  \<comment> \<open>stage 6\<close>
  "si_install h version pfx srcdir steps w =
     (let (r, ev, w1) = run_cmd h [''make'', ''install'', ''PREFIX='' @ pfx] (Some srcdir) False w
      in if r_exit r \<noteq> 0 then (failed (steps @ [r]), ev @ [log_of r], w1)
         else (let (res, ev2, w2) = si_register h version pfx (steps @ [r]) w1
               in (res, ev @ [log_of r] @ ev2, w2)))"

definition si_make ::
  "'w host \<Rightarrow> string \<Rightarrow> string \<Rightarrow> string \<Rightarrow> cmd_result list \<Rightarrow> 'w
     \<Rightarrow> build_result \<times> event list \<times> 'w" where
  \<comment> \<open>stages 4 and 5\<close>
  "si_make h version pfx srcdir steps w =
     (let make_cmd = [(if which h w ''gmake'' \<noteq> None then ''gmake'' else ''make''), ''-j'',
                      str_nat (max 1 (case cpu_count h of None \<Rightarrow> 1
                                      | Some n \<Rightarrow> if n = 0 then 1 else n))];
          (r, ev, w1) = run_cmd h make_cmd (Some srcdir) False w
      in if r_exit r \<noteq> 0 then (failed (steps @ [r]), ev @ [log_of r], w1)
         else (let (t, evt, w2) = run_cmd h [''make'', ''test''] (Some srcdir) False w1;
                   (res, ev3, w3) = si_install h version pfx srcdir (steps @ [r, t]) w2
               in (res, ev @ [log_of r] @ evt @ [log_of t] @ ev3, w3)))"

definition cfg_cmd :: "string \<Rightarrow> string \<Rightarrow> string list" where
  "cfg_cmd platform pfx =
     (if platform \<in> set [''aix'', ''hp-ux'', ''sunos'']
      then [''./Configure'', ''--prefix='' @ pfx, ''shared'']
      else [''./config'', ''--prefix='' @ pfx, ''shared''])"

definition alt_cmd :: "string \<Rightarrow> string list" where
  "alt_cmd pfx = [''./Configure'', ''linux-x86_64'', ''--prefix='' @ pfx, ''shared'']"

definition si_configure ::
  "'w host \<Rightarrow> string \<Rightarrow> string \<Rightarrow> string \<Rightarrow> string \<Rightarrow> cmd_result list \<Rightarrow> 'w
     \<Rightarrow> build_result \<times> event list \<times> 'w" where
  \<comment> \<open>stage 3\<close>
  "si_configure h platform version pfx srcdir steps w =
     (let (r, ev, w1) = run_cmd h (cfg_cmd platform pfx) (Some srcdir) False w
      in if r_exit r \<noteq> 0 then
           (let (r2, ev2, w2) = run_cmd h (alt_cmd pfx) (Some srcdir) False w1
            in if r_exit r2 \<noteq> 0
               then (failed (steps @ [r, r2]), ev @ [log_of r] @ ev2 @ [log_of r2], w2)
               else (let (res, ev3, w3) = si_make h version pfx srcdir (steps @ [r, r2]) w2
                     in (res, ev @ [log_of r] @ ev2 @ [log_of r2] @ ev3, w3)))
         else (let (res, ev3, w3) = si_make h version pfx srcdir (steps @ [r]) w1
               in (res, ev @ [log_of r] @ ev3, w3)))"

definition si_extract ::
  "'w host \<Rightarrow> string \<Rightarrow> string \<Rightarrow> string \<Rightarrow> string \<Rightarrow> cmd_result list \<Rightarrow> 'w
     \<Rightarrow> (error + build_result) \<times> event list \<times> 'w" where
  \<comment> \<open>stage 2 and \<open>srcdir = next(pathlib.Path(workdir).glob('openssl-*'))\<close>\<close>
  "si_extract h platform version pfx workdir steps w =
     (let tarball = ''openssl-'' @ version @ ''.tar.gz'';
          (r, ev, w1) = run_cmd h [''tar'', ''xzf'', path_join workdir tarball, ''-C'', workdir]
                          None False w
      in if r_exit r \<noteq> 0 then (Inr (failed (steps @ [r])), ev @ [log_of r], w1)
         else (case first_srcdir h w1 workdir of
                 None \<Rightarrow> (Inl StopIteration, ev @ [log_of r], w1)
               | Some srcdir \<Rightarrow>
                   (let (res, ev2, w2) = si_configure h platform version pfx srcdir (steps @ [r]) w1
                    in (Inr res, ev @ [log_of r] @ ev2, w2))))"

definition si_download ::
  "'w host \<Rightarrow> string \<Rightarrow> string \<Rightarrow> string \<Rightarrow> string \<Rightarrow> 'w
     \<Rightarrow> (error + build_result) \<times> event list \<times> 'w" where
  \<comment> \<open>stage 1\<close>
  "si_download h platform version pfx workdir w =
     (let tarball = ''openssl-'' @ version @ ''.tar.gz'';
          url = ''https://www.openssl.org/source/'' @ tarball;
          (r, ev, w1) = run_cmd h [''bash'', ''-lc'',
                                   ''curl -fL '' @ url @ '' -o '' @ workdir @ ''/'' @ tarball]
                          None False w
      in if r_exit r \<noteq> 0 then
           (let (derr, w2) = urlopen_save h w1 url (path_join workdir tarball)
            in case derr of
                 None \<Rightarrow>
                   (let e = \<lparr>r_cmd = ''urllib-download'', r_exit = 0,
                             r_stdout = ''downloaded to '' @ workdir @ ''/'' @ tarball, r_stderr = []\<rparr>;
                        (res, ev2, w3) = si_extract h platform version pfx workdir [r, e] w2
                    in (res, ev @ [log_of r, Download url, log_of e] @ ev2, w3))
               | Some msg \<Rightarrow>
                   (let e = \<lparr>r_cmd = ''download-failed'', r_exit = 1, r_stdout = [], r_stderr = msg\<rparr>
                    in (Inr (failed [r, e]), ev @ [log_of r, Download url, log_of e], w2)))
         else (let (res, ev2, w3) = si_extract h platform version pfx workdir [r] w1
               in (res, ev @ [log_of r] @ ev2, w3)))"

definition missing_tools :: "'w host \<Rightarrow> string \<Rightarrow> 'w \<Rightarrow> string list" where
  \<comment> \<open>stage 0\<close>
  "missing_tools h platform w =
     (if platform = ''windows'' then
        (if which h w ''perl'' = None then [''perl''] else []) @
        (if \<not> (which h w ''cl'' \<noteq> None \<or> which h w ''gcc'' \<noteq> None)
         then [''C compiler (cl or gcc)''] else [])
      else
        (if which h w ''make'' = None \<and> which h w ''gmake'' = None then [''make''] else []) @
        (if which h w ''perl'' = None then [''perl''] else []) @
        (if \<not> (which h w ''gcc'' \<noteq> None \<or> which h w ''cc'' \<noteq> None \<or> which h w ''clang'' \<noteq> None)
         then [''C compiler''] else []))"

definition side_install_from_source ::
  "'w host \<Rightarrow> string \<Rightarrow> string \<Rightarrow> string option \<Rightarrow> 'w
     \<Rightarrow> (error + build_result) \<times> event list \<times> 'w" where
  "side_install_from_source h platform version prefix_arg w =
     (let pfx = (case prefix_arg of None \<Rightarrow> ''/opt/openssl-'' @ version | Some p \<Rightarrow> p);
          (tmp, w0) = mkdtemp h w
      in case tmp of
           None \<Rightarrow> (Inl OSError, [], w0)
         | Some workdir \<Rightarrow>
             (let missing = missing_tools h platform w0
              in if missing \<noteq> [] then
                   (let e = \<lparr>r_cmd = ''check-build-tools'', r_exit = 1, r_stdout = [],
                             r_stderr = ''Missing build tools: '' @ join '', '' missing\<rparr>
                    in (Inr (failed [e]), [log_of e], w0))
                 else si_download h platform version pfx workdir w0))"

subsection \<open>run_smoke_tests\<close>

record smoke_check =
  c_name :: string
  c_ok :: bool

record verdict =
  v_status :: string
  v_checks :: "smoke_check list"

fun check_bins ::
  "'w host \<Rightarrow> string \<Rightarrow> string list \<Rightarrow> 'w \<Rightarrow> smoke_check list \<times> event list \<times> 'w" where
  \<comment> \<open>the loop \<open>for bin_path in bins_to_check\<close>\<close>
  "check_bins h tv [] w = ([], [], w)"
| "check_bins h tv (b # bs) w =
     (let (r, ev, w1) = run_cmd h [b, ''version'', ''-a''] None False w;
          c = \<lparr>c_name = ''openssl-version-'' @ b, c_ok = str_in tv (r_stdout r)\<rparr>;
          (cs, ev2, w2) = check_bins h tv bs w1
      in (c # cs,
          ev @ [log_of r, Snapshot ''post'' (''openssl-version-'' @ path_name h b @ ''.txt'')] @ ev2,
          w2))"

definition run_smoke_tests :: "'w host \<Rightarrow> agent \<Rightarrow> 'w \<Rightarrow> verdict \<times> event list \<times> 'w" where
  "run_smoke_tests h a w =
     (let side_install_bin = ''/opt/openssl-'' @ target_version a @ ''/bin/openssl'';
          bins_to_check =
            (case which h w ''openssl'' of None \<Rightarrow> [] | Some p \<Rightarrow> [p]) @
            (if path_exists h w side_install_bin then [side_install_bin] else []);
          (cs1, ev1, w1) = check_bins h (target_version a) bins_to_check w;
          (cs2, ev2, w2) =
            (case health_url a of
               None \<Rightarrow> ([], [], w1)
             | Some host \<Rightarrow>
                 if host \<noteq> [] \<and> which h w1 ''openssl'' \<noteq> None then
                   (let (r, ev, w') =
                          run_cmd h [''bash'', ''-lc'',
                                     ''echo | openssl s_client -connect '' @ host @ '':443 -servername ''
                                       @ host @ '' -brief''] None False w1
                    in ([\<lparr>c_name = ''openssl-s_client'', c_ok = (r_exit r = 0)\<rparr>],
                        ev @ [log_of r], w'))
                 else ([], [], w1));
          (cs3, ev3, w3) =
            (case health_url a of
               None \<Rightarrow> ([], [], w2)
             | Some url \<Rightarrow>
                 if url \<noteq> [] \<and> which h w2 ''curl'' \<noteq> None then
                   (let (r, ev, w') =
                          run_cmd h [''curl'', ''--fail'', ''--silent'', ''--show-error'', url]
                            None False w2
                    in ([\<lparr>c_name = ''http-health'', c_ok = (r_exit r = 0)\<rparr>], ev @ [log_of r], w'))
                 else ([], [], w2));
          checks = cs1 @ cs2 @ cs3;
          status = (if list_all c_ok checks \<and> checks \<noteq> [] then ''pass''
                    else (if checks \<noteq> [] then ''fail'' else ''no-checks''))
      in (\<lparr>v_status = status, v_checks = checks\<rparr>,
          ev1 @ ev2 @ ev3 @ [Log (Some ''smoke-tests'') ''completed'' 0], w3))"

subsection \<open>prepare_backup\<close>

text \<open>
  The per-run backup directory belongs to the agent, so its content is modelled
  explicitly: a map from the path of a file in it to the path it was copied from.
  \<open>dest.exists()\<close> is membership in this map, and shutil.copy2 onto an existing
  destination overwrites the entry.
\<close>

type_synonym vault = "string \<rightharpoonup> string"

definition dest_path :: "string \<Rightarrow> string \<Rightarrow> string" where
  \<comment> \<open>\<open>self.backup_dir / name\<close>\<close>
  "dest_path bd name = bd @ ''/'' @ name"

definition nt_join :: "string \<Rightarrow> string \<Rightarrow> string" where
  \<comment> \<open>os.path.join on Windows for a directory and a relative name\<close>
  "nt_join a b =
     (if a = [] then b
      else if last a = CHR 0x5C \<or> last a = CHR ''/'' then a @ b else a @ [CHR 0x5C] @ b)"

definition lib_globs :: "'w host \<Rightarrow> string \<Rightarrow> string list" where
  "lib_globs h platform =
     (if platform = ''windows''
      then [nt_join (nt_join (case system_root h of None \<Rightarrow> ''C:'' @ [CHR 0x5C] @ ''Windows''
                              | Some r \<Rightarrow> r) ''System32'') ''libssl*'']
      else [''/usr/lib*/libssl*'', ''/usr/local/lib*/libssl*'', ''/opt/lib*/libssl*'',
            ''/usr/lib*/libcrypto*'', ''/usr/local/lib*/libcrypto*''])"

fun copy_libs ::
  "'w host \<Rightarrow> 'w \<Rightarrow> string \<Rightarrow> string list \<Rightarrow> vault \<Rightarrow> string list \<times> event list \<times> vault" where
  \<comment> \<open>the loop over the matches of one pattern; a copy that raises is skipped\<close>
  "copy_libs h w bd [] files = ([], [], files)"
| "copy_libs h w bd (p # ps) files =
     (let dest = dest_path bd (''lib_'' @ path_name h p)
      in if files dest = None then
           (if copy2 h w p then
              (let (sv, ev, files') = copy_libs h w bd ps (files(dest \<mapsto> p))
               in (dest # sv, Copy p dest # ev, files'))
            else copy_libs h w bd ps files)
         else copy_libs h w bd ps files)"

fun backup_globs ::
  "'w host \<Rightarrow> 'w \<Rightarrow> string \<Rightarrow> string list \<Rightarrow> vault \<Rightarrow> string list \<times> event list \<times> vault" where
  \<comment> \<open>the loop \<open>for pattern in lib_globs\<close>; a glob that raises is skipped\<close>
  "backup_globs h w bd [] files = ([], [], files)"
| "backup_globs h w bd (pat # pats) files =
     (case glob h w pat of
        None \<Rightarrow> backup_globs h w bd pats files
      | Some ps \<Rightarrow>
          (let (sv, ev, files1) = copy_libs h w bd ps files;
               (sv2, ev2, files2) = backup_globs h w bd pats files1
           in (sv @ sv2, ev @ ev2, files2)))"

definition archive_backup :: "'w host \<Rightarrow> 'w \<Rightarrow> string \<Rightarrow> event list" where
  \<comment> \<open>the tar.gz of the backup directory, with its audit record\<close>
  "archive_backup h w bd =
     (let tarball = bd @ ''.tar.gz''
      in case mk_tar h w tarball of
           None \<Rightarrow> [Archive tarball, Log (Some ''backup'') (''created '' @ tarball) 0]
         | Some msg \<Rightarrow> [Log (Some ''backup'') ''tar-failed'' 1])"

definition prepare_backup ::
  "'w host \<Rightarrow> string \<Rightarrow> string \<Rightarrow> vault \<Rightarrow> 'w
     \<Rightarrow> (error + string list) \<times> vault \<times> event list \<times> 'w" where
  "prepare_backup h platform bd files w =
     (case which h w ''openssl'' of
        Some openssl_path \<Rightarrow>
          (let target = dest_path bd ''openssl_binary''
           in if copy2 h w openssl_path then
                (let sidecar = dest_path bd ''openssl_binary.sha256'';
                     files0 = files(target \<mapsto> openssl_path, sidecar \<mapsto> target);
                     (sv, ev, files1) = backup_globs h w bd (lib_globs h platform) files0
                 in (Inr (target # sv), files1,
                     [Copy openssl_path target, Sidecar sidecar] @ ev @ archive_backup h w bd, w))
              else (Inl OSError, files, [], w))
      | None \<Rightarrow>
          (let (sv, ev, files1) = backup_globs h w bd (lib_globs h platform) files
           in (Inr sv, files1, ev @ archive_backup h w bd, w)))"

subsection \<open>upgrade_application_dependencies\<close>

definition match_arrow_at :: "string \<Rightarrow> string option" where
  \<comment> \<open>the regular expression \<open>=>\\s+(\\S+)\\s+\\(\<close> anchored at the start of the text: both
      classes are greedy over disjoint character sets, so each run is the maximal one\<close>
  "match_arrow_at s =
     (case s of
        a # b # rest \<Rightarrow>
          if a = CHR ''='' \<and> b = CHR ''>'' then
            (let ws1 = takeWhile is_space rest;
                 r1 = dropWhile is_space rest;
                 tok = takeWhile (\<lambda>c. \<not> is_space c) r1;
                 r2 = dropWhile (\<lambda>c. \<not> is_space c) r1;
                 ws2 = takeWhile is_space r2;
                 r3 = dropWhile is_space r2
             in if ws1 \<noteq> [] \<and> tok \<noteq> [] \<and> ws2 \<noteq> [] \<and> (case r3 of [] \<Rightarrow> False | c # _ \<Rightarrow> c = CHR ''('')
                then Some tok else None)
          else None
      | _ \<Rightarrow> None)"

fun re_search_arrow :: "string \<Rightarrow> string option" where
  \<comment> \<open>re.search: the leftmost position where the expression matches; group 1\<close>
  "re_search_arrow [] = None"
| "re_search_arrow (c # cs) =
     (case match_arrow_at (c # cs) of Some t \<Rightarrow> Some t | None \<Rightarrow> re_search_arrow cs)"

fun otool_paths :: "(string \<Rightarrow> bool) \<Rightarrow> string list \<Rightarrow> error + string list" where
  \<comment> \<open>the darwin loop: stripped lines that start with a slash, first field, kept if it exists\<close>
  "otool_paths ex [] = Inr []"
| "otool_paths ex (l # ls) =
     (let line = py_strip l
      in if (case line of [] \<Rightarrow> False | c # _ \<Rightarrow> c = CHR ''/'') then
           (case item (split_ws line) 0 of
              Inl e \<Rightarrow> Inl e
            | Inr path \<Rightarrow>
                (case otool_paths ex ls of
                   Inl e \<Rightarrow> Inl e
                 | Inr ps \<Rightarrow> Inr (if ex path then path # ps else ps)))
         else otool_paths ex ls)"

definition identify_libs ::
  "'w host \<Rightarrow> string \<Rightarrow> string \<Rightarrow> 'w \<Rightarrow> (error + string list) \<times> event list \<times> 'w" where
  \<comment> \<open>part 1 of upgrade_application_dependencies\<close>
  "identify_libs h platform app w =
     (if platform \<in> set [''linux'', ''sunos''] then
        (let (r, ev, w1) = run_cmd h [''ldd'', app] None False w
         in if r_exit r = 0
            then (Inr (filter (path_exists h w1)
                         (List.map_filter re_search_arrow (splitlines (r_stdout r)))), ev, w1)
            else (Inr [], ev, w1))
      else if platform = ''darwin'' then
        (let (r, ev, w1) = run_cmd h [''otool'', ''-L'', app] None False w
         in if r_exit r = 0
            then (otool_paths (path_exists h w1) (splitlines (r_stdout r)), ev, w1)
            else (Inr [], ev, w1))
      else if platform = ''aix'' then
        (if which h w ''ldd'' \<noteq> None then
           (let (r, ev, w1) = run_cmd h [''ldd'', app] None False w
            in (Inr (List.map_filter re_search_arrow (splitlines (r_stdout r))), ev, w1))
         else (Inr [], [], w))
      else if platform = ''hp-ux'' then
        (if which h w ''chatr'' \<noteq> None then
           (let (r, ev, w1) = run_cmd h [''chatr'', app] None False w in (Inr [], ev, w1))
         else (Inr [], [], w))
      else if platform = ''windows'' then
        (if which h w ''dumpbin'' \<noteq> None then
           (let (r, ev, w1) = run_cmd h [''dumpbin'', ''/DEPENDENTS'', app] None False w
            in (Inr [], ev, w1))
         else (Inr [], [], w))
      else (Inr [], [], w))"

fun resolve_all ::
  "'w host \<Rightarrow> string \<Rightarrow> string list \<Rightarrow> 'w \<Rightarrow> (error + string list) \<times> event list \<times> 'w" where
  \<comment> \<open>part 2: the owners of the libraries, in order, those that are None or empty dropped\<close>
  "resolve_all h platform [] w = (Inr [], [], w)"
| "resolve_all h platform (lib # libs) w =
     (case resolve_package_owner h platform lib w of
        (Inl e, ev, w1) \<Rightarrow> (Inl e, ev, w1)
      | (Inr pkg, ev, w1) \<Rightarrow>
          (case resolve_all h platform libs w1 of
             (Inl e, ev2, w2) \<Rightarrow> (Inl e, ev @ ev2, w2)
           | (Inr pkgs, ev2, w2) \<Rightarrow>
               (Inr (case pkg of None \<Rightarrow> pkgs | Some p \<Rightarrow> if p \<noteq> [] then p # pkgs else pkgs),
                ev @ ev2, w2)))"

definition packages_to_upgrade :: "string list \<Rightarrow> string list" where
  \<comment> \<open>part 3: the set of owners without the OpenSSL packages, sorted\<close>
  "packages_to_upgrade pkgs =
     sort (remdups (filter (\<lambda>p. \<not> list_ex (\<lambda>x. str_in x p) [''openssl'', ''libssl'', ''libcrypto''])
                      pkgs))"

definition dep_upgrade_cmd :: "'w host \<Rightarrow> string \<Rightarrow> string list \<Rightarrow> 'w \<Rightarrow> (string list \<times> bool) option" where
  \<comment> \<open>part 4: the upgrade command of the platform and whether it runs under sudo\<close>
  "dep_upgrade_cmd h platform pkgs w =
     (if platform = ''linux'' then
        (if which h w ''apt'' \<noteq> None
         then Some ([''apt'', ''install'', ''--only-upgrade'', ''-y''] @ pkgs, True)
         else if which h w ''yum'' \<noteq> None then Some ([''yum'', ''update'', ''-y''] @ pkgs, True)
         else if which h w ''dnf'' \<noteq> None then Some ([''dnf'', ''update'', ''-y''] @ pkgs, True)
         else if which h w ''apk'' \<noteq> None then Some ([''apk'', ''add'', ''--upgrade''] @ pkgs, True)
         else None)
      else if platform = ''darwin'' then
        (if which h w ''brew'' \<noteq> None then Some ([''brew'', ''upgrade''] @ pkgs, False) else None)
      else if platform = ''windows'' then
        (if which h w ''choco'' \<noteq> None then Some ([''choco'', ''upgrade'', ''-y''] @ pkgs, False)
         else None)
      else if platform = ''sunos'' then
        (if which h w ''pkg'' \<noteq> None then Some ([''pkg'', ''update''] @ pkgs, True) else None)
      else if platform = ''aix'' then
        (if which h w ''yum'' \<noteq> None then Some ([''yum'', ''update'', ''-y''] @ pkgs, True) else None)
      else None)"

definition upgrade_application_dependencies ::
  "'w host \<Rightarrow> agent \<Rightarrow> string \<Rightarrow> string \<Rightarrow> 'w \<Rightarrow> (error + unit) \<times> event list \<times> 'w" where
  "upgrade_application_dependencies h a platform app w =
     (let ev0 = [Log (Some ''dep-check'') ''checking-dependencies'' 0]
      in case identify_libs h platform app w of
           (Inl e, ev1, w1) \<Rightarrow> (Inl e, ev0 @ ev1, w1)
         | (Inr libs, ev1, w1) \<Rightarrow>
             (case resolve_all h platform libs w1 of
                (Inl e, ev2, w2) \<Rightarrow> (Inl e, ev0 @ ev1 @ ev2, w2)
              | (Inr pkgs, ev2, w2) \<Rightarrow>
                  (let todo = packages_to_upgrade pkgs
                   in if todo = [] then (Inr (), ev0 @ ev1 @ ev2, w2)
                      else (let (ok, ev3, w3) = confirm_upgrade h a todo w2
                            in if ok then
                                 (case dep_upgrade_cmd h platform todo w3 of
                                    None \<Rightarrow> (Inr (), ev0 @ ev1 @ ev2 @ ev3, w3)
                                  | Some (cmd, sudo) \<Rightarrow>
                                      (let (r, ev4, w4) = run_cmd h cmd None sudo w3
                                       in (Inr (), ev0 @ ev1 @ ev2 @ ev3 @ ev4 @ [log_of r], w4)))
                               else (Inr (), ev0 @ ev1 @ ev2 @ ev3, w3)))))"

subsection \<open>decide_and_execute\<close>

definition generate_readme :: "agent \<Rightarrow> event list" where
  \<comment> \<open>the report is written and its audit record logged; its text is not modelled\<close>
  "generate_readme a =
     (let readme_path = path_join (log_dir a) ''README.md''
      in [Write_file readme_path, Log (Some ''generate-readme'') (''write '' @ readme_path) 0])"

definition pm_upgrade ::
  "'w host \<Rightarrow> agent \<Rightarrow> string list \<Rightarrow> string list \<Rightarrow> string list \<Rightarrow> 'w
     \<Rightarrow> (error + bool) \<times> event list \<times> 'w" where
  \<comment> \<open>one package-manager branch of step 7: confirm the items, then run the refresh
      command and the upgrade command, each logged; \<open>Inr False\<close> is the early return
      with status aborted\<close>
  "pm_upgrade h a items refresh upgrade w =
     (let (ok, ev, w1) = confirm_upgrade h a items w
      in if \<not> ok then (Inr False, ev, w1)
         else (let (r1, ev1, w2) = run_cmd h refresh None False w1;
                   (r2, ev2, w3) = run_cmd h upgrade None False w2
               in (Inr True, ev @ ev1 @ [log_of r1] @ ev2 @ [log_of r2], w3)))"

definition source_build ::
  "'w host \<Rightarrow> agent \<Rightarrow> string \<Rightarrow> 'w \<Rightarrow> (error + bool) \<times> event list \<times> 'w" where
  \<comment> \<open>the block that step 7 has twice, as the last package-manager branch and as the
      side-install branch: confirm, build from source, log the result\<close>
  "source_build h a platform w =
     (let (ok, ev, w1) =
            confirm_upgrade h a [''OpenSSL '' @ target_version a @ '' (source build)''] w
      in if \<not> ok then (Inr False, ev, w1)
         else (case side_install_from_source h platform (target_version a) None w1 of
                 (Inl e, ev2, w2) \<Rightarrow> (Inl e, ev @ ev2, w2)
               | (Inr res, ev2, w2) \<Rightarrow>
                   (Inr True,
                    ev @ ev2 @ [Log (Some ''side-install-result'') ''side-install''
                                  (if b_status res = ''ok'' then 0 else 1)],
                    w2)))"

definition perform_upgrade ::
  "'w host \<Rightarrow> agent \<Rightarrow> string \<Rightarrow> strategy \<Rightarrow> string list \<Rightarrow> 'w
     \<Rightarrow> (error + bool) \<times> event list \<times> 'w" where
  \<comment> \<open>step 7 of decide_and_execute\<close>
  "perform_upgrade h a platform strat pms w =
     (if s_type strat = ''package-manager'' then
        (case item pms 0 of
           Inl e \<Rightarrow> (Inl e, [], w)
         | Inr pm \<Rightarrow>
             if pm = ''apt'' then
               pm_upgrade h a [''openssl'', ''libssl-dev''] [''apt'', ''update'', ''-y'']
                 [''apt'', ''install'', ''--only-upgrade'', ''-y'', ''openssl'', ''libssl-dev''] w
             else if pm \<in> set [''dnf'', ''yum''] then
               pm_upgrade h a [''openssl''] [pm, ''makecache''] [pm, ''update'', ''-y'', ''openssl''] w
             else if pm = ''apk'' then
               pm_upgrade h a [''openssl''] [''apk'', ''update'']
                 [''apk'', ''add'', ''--upgrade'', ''openssl''] w
             else if pm = ''brew'' then
               (case item (split_on CHR ''.'' (target_version a)) 0 of
                  Inl e \<Rightarrow> (Inl e, [], w)
                | Inr major \<Rightarrow>
                    pm_upgrade h a [''openssl@'' @ major] [''brew'', ''update'']
                      [''brew'', ''upgrade'', ''openssl@'' @ major] w)
             else source_build h a platform w)
      else if s_type strat = ''side-install'' then source_build h a platform w
      else (Inr True, [], w))"

record run_result =
  status :: string
  success :: "bool option"
  chosen :: "strategy option"

text \<open>
  The dictionary that decide_and_execute returns: \<open>success\<close> and \<open>chosen\<close> are None
  when the dictionary has no such key.
\<close>

definition post_checks ::
  "'w host \<Rightarrow> agent \<Rightarrow> string \<Rightarrow> 'w \<Rightarrow> run_result \<times> event list \<times> 'w" where
  \<comment> \<open>steps 8 to 10\<close>
  "post_checks h a platform w =
     (let (r, ev1, w1) = detect_openssl_cli h w;
          (ev2, w2) = (case app_path a of
                         None \<Rightarrow> ([], w1)
                       | Some app \<Rightarrow>
                           if app \<noteq> [] then
                             (let (l, e, w') = detect_application_linking h platform app w1
                              in (e, w'))
                           else ([], w1));
          (smoke, ev3, w3) = run_smoke_tests h a w2
      in (\<lparr>status = ''done'', success = Some (v_status smoke = ''pass''), chosen = None\<rparr>,
          ev1 @ ev2 @ ev3 @ generate_readme a, w3))"

definition plan_and_upgrade ::
  "'w host \<Rightarrow> agent \<Rightarrow> string \<Rightarrow> string list \<Rightarrow> 'w \<Rightarrow> (error + run_result) \<times> event list \<times> 'w" where
  \<comment> \<open>steps 5 to 10\<close>
  "plan_and_upgrade h a platform pms w =
     (let strat = choose_strategy pms;
          ev5 = [Log (Some ''strategy'') ''chosen'' 0]
      in if dry_run a then
           (Inr \<lparr>status = ''dry-run'', success = None, chosen = Some strat\<rparr>,
            ev5 @ [Log (Some ''dry-run'') ''planned-actions'' 0] @ generate_readme a, w)
         else
           (case perform_upgrade h a platform strat pms w of
              (Inl e, ev7, w7) \<Rightarrow> (Inl e, ev5 @ ev7, w7)
            | (Inr False, ev7, w7) \<Rightarrow>
                (Inr \<lparr>status = ''aborted'', success = Some False, chosen = None\<rparr>, ev5 @ ev7, w7)
            | (Inr True, ev7, w7) \<Rightarrow>
                (let (res, ev8, w8) = post_checks h a platform w7
                 in (Inr res, ev5 @ ev7 @ ev8, w8))))"

definition inspect_application ::
  "'w host \<Rightarrow> agent \<Rightarrow> string \<Rightarrow> 'w \<Rightarrow> (error + unit) \<times> event list \<times> 'w" where
  \<comment> \<open>step 3: only when an application path was given\<close>
  "inspect_application h a platform w =
     (case app_path a of
        None \<Rightarrow> (Inr (), [], w)
      | Some app \<Rightarrow>
          if app \<noteq> [] then
            (let (l, e1, w1) = detect_application_linking h platform app w;
                 (d, e2, w2) = upgrade_application_dependencies h a platform app w1
             in (d, e1 @ e2, w2))
          else (Inr (), [], w))"

definition decide_and_execute ::
  "'w host \<Rightarrow> agent \<Rightarrow> string \<Rightarrow> vault \<Rightarrow> 'w \<Rightarrow> (error + run_result) \<times> event list \<times> 'w" where
  "decide_and_execute h a platform files w =
     (let ev0 = [Log (Some ''start'') ''decide_and_execute'' 0];
          (r1, ev1, w1) = detect_openssl_cli h w;
          (pms, ev2, w2) = detect_package_managers h w1
      in case inspect_application h a platform w2 of
           (Inl e, ev3, w3) \<Rightarrow> (Inl e, ev0 @ ev1 @ ev2 @ ev3, w3)
         | (Inr u, ev3, w3) \<Rightarrow>
             (case prepare_backup h platform (backup_dir a) files w3 of
                (Inl e, files', ev4, w4) \<Rightarrow> (Inl e, ev0 @ ev1 @ ev2 @ ev3 @ ev4, w4)
              | (Inr saved, files', ev4, w4) \<Rightarrow>
                  (let (res, ev5, w5) = plan_and_upgrade h a platform pms w4
                   in (res, ev0 @ ev1 @ ev2 @ ev3 @ ev4 @ ev5, w5))))"

subsection \<open>Predicates used to state the properties of owner resolution\<close>



subsection \<open>Predicates used to state the properties of the source build\<close>

text \<open>
  \<open>recorded_prefix pfx r\<close>: the result either has status ok and carries the prefix, or
  has status error and carries no prefix.
\<close>

definition recorded_prefix :: "string \<Rightarrow> build_result \<Rightarrow> bool" where
  "recorded_prefix pfx r =
     ((b_status r = ''ok'' \<and> b_prefix r = Some pfx) \<or> (b_status r = ''error'' \<and> b_prefix r = None))"

text \<open>
  Classes of events: \<open>cfg_event\<close> is a call or an audit record of a configure script
  (the command starts with \<open>./\<close>); \<open>make_exec\<close> is a call of make or gmake, which is
  what the build, test and install stages run; \<open>is_exec_of argv\<close> is a call with this
  argument vector; \<open>clean\<close> is an event of neither of the first two classes.
\<close>

definition cfg_event :: "event \<Rightarrow> bool" where
  "cfg_event e =
     (case e of
        Exec a c \<Rightarrow> (case a of [] \<Rightarrow> False | x # _ \<Rightarrow> take 2 x = ''./'')
      | Log s t x \<Rightarrow> take 2 t = ''./''
      | _ \<Rightarrow> False)"

definition make_exec :: "event \<Rightarrow> bool" where
  "make_exec e =
     (case e of
        Exec a c \<Rightarrow> (case a of [] \<Rightarrow> False | x # _ \<Rightarrow> x = ''make'' \<or> x = ''gmake'')
      | _ \<Rightarrow> False)"

definition is_exec_of :: "string list \<Rightarrow> event \<Rightarrow> bool" where
  "is_exec_of argv e = (case e of Exec a c \<Rightarrow> a = argv | _ \<Rightarrow> False)"

definition clean :: "event \<Rightarrow> bool" where
  "clean e = (\<not> cfg_event e \<and> \<not> make_exec e)"

subsection \<open>Predicates used to state the properties of the upgrade dispatch\<close>

text \<open>
  \<open>pm_exec\<close>: the event is a call of one of the probed package managers, directly or
  under sudo.
\<close>

definition pm_exec :: "event \<Rightarrow> bool" where
  "pm_exec e =
     (case e of
        Exec a c \<Rightarrow>
          (case a of
             [] \<Rightarrow> False
           | x # xs \<Rightarrow>
               x \<in> set pm_candidates \<or>
               (x = ''sudo'' \<and> (case xs of [] \<Rightarrow> False | y # _ \<Rightarrow> y \<in> set pm_candidates)))
      | _ \<Rightarrow> False)"

subsection \<open>Concrete hosts\<close>

text \<open>
  \<open>bare_host\<close> has no tool at all: every probe fails and every command fails to start.
  \<open>deb_rpm_host\<close> has both dpkg and rpm; dpkg does not know the path, rpm does.
\<close>

definition bare_host :: "unit host" where
  "bare_host =
     \<lparr>os_name = ''posix'',
      which = (\<lambda>w p. None),
      subprocess_run = (\<lambda>w argv cwd. (Inl ''No such file or directory'', w)),
      path_exists = (\<lambda>w p. False),
      isdir = (\<lambda>w p. False),
      glob = (\<lambda>w pat. Some []),
      path_name = (\<lambda>p. last (split_on CHR ''/'' p)),
      path_str = (\<lambda>p. p),
      copy2 = (\<lambda>w src. True),
      mk_tar = (\<lambda>w p. None),
      input_line = (\<lambda>w. (None, w)),
      mkdtemp = (\<lambda>w. (Some ''/tmpab12cd'', w)),
      urlopen_save = (\<lambda>w url dst. (Some ''unreachable'', w)),
      first_srcdir = (\<lambda>w d. None),
      cpu_count = Some 4,
      write_text = (\<lambda>w p c. (None, w)),
      system_root = None\<rparr>"

definition deb_rpm_host :: "unit host" where
  "deb_rpm_host =
     bare_host
       \<lparr>which := (\<lambda>w p. if p = ''dpkg'' then Some ''/usr/bin/dpkg''
                       else if p = ''rpm'' then Some ''/usr/bin/rpm'' else None),
        subprocess_run := (\<lambda>w argv cwd.
           if hd argv = ''rpm''
           then (Inr \<lparr>returncode = 0, out = ''openssl-libs-3.0.7-1.el9.x86_64'', err = []\<rparr>, w)
           else (Inr \<lparr>returncode = 1, out = [],
                      err = ''dpkg-query: no path found matching pattern''\<rparr>, w))\<rparr>"

text \<open>
  \<open>zypper_host\<close> has zypper and rpm and nothing else. \<open>plain_agent\<close> is a forced run for
  version 3.0.8 with no application path and no health target.
\<close>

definition zypper_host :: "unit host" where
  "zypper_host =
     bare_host\<lparr>which := (\<lambda>w p. if p \<in> set [''zypper'', ''rpm''] then Some (''/usr/bin/'' @ p) else None)\<rparr>"

definition plain_agent :: agent where
  "plain_agent =
     \<lparr>app_path = None, target_version = ''3.0.8'', dry_run = False, health_url = None,
      force = True, backup_dir = ''/var/backups/openssl-agent/run1'',
      log_dir = ''/var/log/openssl-agent/run1''\<rparr>"

text \<open>
  \<open>broken_configure_host\<close> has the build tools, every command succeeds except the
  configure scripts, which exit 1.
\<close>

definition broken_configure_host :: "unit host" where
  "broken_configure_host =
     bare_host
       \<lparr>which := (\<lambda>w p. if p \<in> set [''make'', ''perl'', ''gcc''] then Some (''/usr/bin/'' @ p) else None),
        subprocess_run := (\<lambda>w argv cwd.
           if take 2 (hd argv) = ''./''
           then (Inr \<lparr>returncode = 1, out = [], err = []\<rparr>, w)
           else (Inr \<lparr>returncode = 0, out = [], err = []\<rparr>, w)),
        first_srcdir := (\<lambda>w d. Some (d @ ''/openssl-3.0.8''))\<rparr>"


section \<open>Properties\<close>

subsection \<open>Strings and lists\<close>

lemma split_on_nonempty: "split_on c s \<noteq> []"
  by (induction s) (auto split: list.splits)




lemma item_0: "xs \<noteq> [] \<Longrightarrow> item xs 0 = Inr (hd xs)"
  by (cases xs) (simp_all add: item_def)




lemma list_index_notin: "v \<notin> set xs \<Longrightarrow> list_index xs v = Inl ValueError"
  by (induction xs) auto

lemma catch_segment_absent: "m \<notin> set parts \<Longrightarrow> catch_ValueError (segment_after parts m) = Inr None"
  by (simp add: segment_after_def catch_ValueError_def list_index_notin)

lemma run_cmd_events: "fst (snd (run_cmd h argv cwd False w)) = [Exec argv cwd]"
  by (simp add: run_cmd_def Let_def split: prod.splits sum.splits)




lemma run_cmd_eventsD: "run_cmd h argv cwd False w = (r, ev, w') \<Longrightarrow> ev = [Exec argv cwd]"
  by (auto simp: run_cmd_def Let_def split: prod.splits sum.splits)

subsection \<open>Owner resolution on linux\<close>

text \<open>
  Claim C7, as the code has it. On linux the database is chosen by which tool is
  installed: \<open>dpkg -S\<close> is the only command run when dpkg is installed, and its
  result is returned when it exits 0 with a colon in its output, else the owner is
  absent; \<open>rpm -qf\<close> is run only when dpkg is not installed and rpm is, and its
  stripped output is returned when it exits 0; with neither tool nothing is run and
  the owner is absent.
\<close>

theorem resolve_package_owner_linux:
  "(which h w ''dpkg'' \<noteq> None \<longrightarrow>
      fst (snd (resolve_package_owner h ''linux'' p w)) = [Exec [''dpkg'', ''-S'', p] None] \<and>
      fst (resolve_package_owner h ''linux'' p w) =
        (let r = fst (run_cmd h [''dpkg'', ''-S'', p] None False w)
         in if r_exit r = 0 \<and> str_in '':'' (r_stdout r)
            then Inr (Some (py_strip (hd (split_on CHR '':'' (r_stdout r)))))
            else Inr None)) \<and>
   (which h w ''dpkg'' = None \<and> which h w ''rpm'' \<noteq> None \<longrightarrow>
      fst (snd (resolve_package_owner h ''linux'' p w)) = [Exec [''rpm'', ''-qf'', p] None] \<and>
      fst (resolve_package_owner h ''linux'' p w) =
        (let r = fst (run_cmd h [''rpm'', ''-qf'', p] None False w)
         in if r_exit r = 0 then Inr (Some (py_strip (r_stdout r))) else Inr None)) \<and>
   (which h w ''dpkg'' = None \<and> which h w ''rpm'' = None \<longrightarrow>
      fst (snd (resolve_package_owner h ''linux'' p w)) = [] \<and>
      fst (resolve_package_owner h ''linux'' p w) = Inr None)"
  by (auto simp: resolve_package_owner_def Let_def item_0 split_on_nonempty split: prod.splits dest: run_cmd_eventsD)

theorem resolve_package_owner_linux_witness:
  "which deb_rpm_host () ''dpkg'' \<noteq> None \<and>
   fst (snd (resolve_package_owner deb_rpm_host ''linux'' ''/usr/lib64/libssl.so.3'' ())) =
     [Exec [''dpkg'', ''-S'', ''/usr/lib64/libssl.so.3''] None] \<and>
   fst (resolve_package_owner deb_rpm_host ''linux'' ''/usr/lib64/libssl.so.3'' ()) = Inr None"
  using resolve_package_owner_linux [of deb_rpm_host "()" "''/usr/lib64/libssl.so.3''"]
  by (simp add: deb_rpm_host_def bare_host_def run_cmd_def py_strip_def)

text \<open>
  Claim C7 as stated fails: on a host with both tools where dpkg does not know the
  path and rpm does, the rpm lookup is never run and the owner is absent.
\<close>

theorem rpm_not_tried_after_dpkg_failure:
  "which deb_rpm_host () ''rpm'' \<noteq> None \<and>
   r_exit (fst (run_cmd deb_rpm_host [''dpkg'', ''-S'', ''/usr/lib64/libssl.so.3''] None False ())) \<noteq> 0 \<and>
   r_exit (fst (run_cmd deb_rpm_host [''rpm'', ''-qf'', ''/usr/lib64/libssl.so.3''] None False ())) = 0 \<and>
   Exec [''rpm'', ''-qf'', ''/usr/lib64/libssl.so.3''] None
     \<notin> set (fst (snd (resolve_package_owner deb_rpm_host ''linux'' ''/usr/lib64/libssl.so.3'' ()))) \<and>
   fst (resolve_package_owner deb_rpm_host ''linux'' ''/usr/lib64/libssl.so.3'' ()) = Inr None"
  by (simp add: resolve_package_owner_def deb_rpm_host_def bare_host_def run_cmd_def py_strip_def)

subsection \<open>Owner resolution never raises\<close>





lemma run_cmd_fst:
  "run_cmd h argv None False w = (r, ev, w') \<Longrightarrow> fst (run_cmd h argv None False w) = r"
  by simp







subsection \<open>Strategy selection\<close>

lemma list_ex_member: "list_ex (\<lambda>pm. pm \<in> set pms) fc \<longleftrightarrow> set pms \<inter> set fc \<noteq> {}"
  by (auto simp: list_ex_iff)

lemma first_class_set:
  "set first_class = {''apt'', ''dnf'', ''yum'', ''apk'', ''zypper'', ''brew'', ''pkg''}"
  by (simp add: first_class_def)

lemma choose_strategy_type:
  "s_type (choose_strategy pms) =
     (if set pms \<inter> set first_class \<noteq> {} then ''package-manager'' else ''side-install'')"
  by (simp add: choose_strategy_def list_ex_member)

text \<open>
  Claim C3. The strategy kind is a function of the set of detected package managers:
  it is \<open>package-manager\<close> when the set contains one of apt, dnf, yum, apk, zypper,
  brew, pkg, and \<open>side-install\<close> when it contains none of them.
\<close>

theorem strategy_selection:
  "(set pms \<inter> {''apt'', ''dnf'', ''yum'', ''apk'', ''zypper'', ''brew'', ''pkg''} \<noteq> {} \<longrightarrow>
      s_type (choose_strategy pms) = ''package-manager'') \<and>
   (set pms \<inter> {''apt'', ''dnf'', ''yum'', ''apk'', ''zypper'', ''brew'', ''pkg''} = {} \<longrightarrow>
      s_type (choose_strategy pms) = ''side-install'') \<and>
   (set pms = set pms' \<longrightarrow> s_type (choose_strategy pms) = s_type (choose_strategy pms'))"
proof (intro conjI impI)
  assume "set pms \<inter> {''apt'', ''dnf'', ''yum'', ''apk'', ''zypper'', ''brew'', ''pkg''} \<noteq> {}"
  then have "set pms \<inter> set first_class \<noteq> {}" unfolding first_class_set .
  then show "s_type (choose_strategy pms) = ''package-manager''"
    by (simp add: choose_strategy_type)
next
  assume "set pms \<inter> {''apt'', ''dnf'', ''yum'', ''apk'', ''zypper'', ''brew'', ''pkg''} = {}"
  then have "set pms \<inter> set first_class = {}" unfolding first_class_set .
  then show "s_type (choose_strategy pms) = ''side-install''"
    by (simp add: choose_strategy_type)
next
  assume "set pms = set pms'"
  then show "s_type (choose_strategy pms) = s_type (choose_strategy pms')"
    by (simp only: choose_strategy_type)
qed

theorem strategy_selection_witness:
  "set [''zypper'', ''rpm''] \<inter> {''apt'', ''dnf'', ''yum'', ''apk'', ''zypper'', ''brew'', ''pkg''} \<noteq> {} \<and>
   s_type (choose_strategy [''zypper'', ''rpm'']) = ''package-manager'' \<and>
   set [''rpm'', ''dpkg''] \<inter> {''apt'', ''dnf'', ''yum'', ''apk'', ''zypper'', ''brew'', ''pkg''} = {} \<and>
   s_type (choose_strategy [''rpm'', ''dpkg'']) = ''side-install'' \<and>
   set [''zypper'', ''rpm''] = set [''rpm'', ''zypper''] \<and>
   s_type (choose_strategy [''zypper'', ''rpm'']) = s_type (choose_strategy [''rpm'', ''zypper''])"
proof -
  have a: "set [''zypper'', ''rpm''] \<inter> {''apt'', ''dnf'', ''yum'', ''apk'', ''zypper'', ''brew'', ''pkg''} \<noteq> {}"
    by simp
  have b: "set [''rpm'', ''dpkg''] \<inter> {''apt'', ''dnf'', ''yum'', ''apk'', ''zypper'', ''brew'', ''pkg''} = {}"
    by simp
  have c: "set [''zypper'', ''rpm''] = set [''rpm'', ''zypper'']" by auto
  note s1 = strategy_selection [of "[''zypper'', ''rpm'']" "[''rpm'', ''zypper'']"]
  note s2 = strategy_selection [of "[''rpm'', ''dpkg'']" "[]"]
  have q1: "s_type (choose_strategy [''zypper'', ''rpm'']) = ''package-manager''"
    by (rule mp [OF conjunct1 [OF s1] a])
  have q2: "s_type (choose_strategy [''rpm'', ''dpkg'']) = ''side-install''"
    by (rule mp [OF conjunct1 [OF conjunct2 [OF s2]] b])
  have q3: "s_type (choose_strategy [''zypper'', ''rpm'']) = s_type (choose_strategy [''rpm'', ''zypper''])"
    by (rule mp [OF conjunct2 [OF conjunct2 [OF s1]] c])
  from a q1 b q2 c q3 show ?thesis by (intro conjI)
qed

subsection \<open>The verdict of the smoke tests\<close>

lemma check_bins_nil: "check_bins h tv [] w = ([], [], w)"
  by simp

lemma smoke_shape:
  "\<exists>cs. fst (run_smoke_tests h a w) =
      \<lparr>v_status = (if list_all c_ok cs \<and> cs \<noteq> [] then ''pass''
                    else (if cs \<noteq> [] then ''fail'' else ''no-checks'')),
       v_checks = cs\<rparr>"
  unfolding run_smoke_tests_def Let_def case_prod_beta fst_conv
  by (rule exI, rule refl)

lemma smoke_nothing_to_check:
  assumes "which h w ''openssl'' = None"
    and "\<not> path_exists h w (''/opt/openssl-'' @ target_version a @ ''/bin/openssl'')"
    and "\<not> truthy (health_url a)"
  shows "v_checks (fst (run_smoke_tests h a w)) = []"
  using assms
  by (cases "health_url a") (simp_all add: run_smoke_tests_def Let_def truthy_def)

text \<open>
  Claim C5. For every call of run_smoke_tests the verdict is \<open>no-checks\<close> exactly when
  the list of attempted checks is empty, \<open>pass\<close> exactly when the list is not empty
  and every check passed, and \<open>fail\<close> exactly when the list is not empty and some
  check did not pass; with no openssl on the search path, no binary at the
  side-install location and no health target, no check is attempted.
\<close>

theorem smoke_verdict:
  "(v_status (fst (run_smoke_tests h a w)) = ''no-checks''
      \<longleftrightarrow> v_checks (fst (run_smoke_tests h a w)) = []) \<and>
   (v_status (fst (run_smoke_tests h a w)) = ''pass''
      \<longleftrightarrow> v_checks (fst (run_smoke_tests h a w)) \<noteq> []
          \<and> list_all c_ok (v_checks (fst (run_smoke_tests h a w)))) \<and>
   (v_status (fst (run_smoke_tests h a w)) = ''fail''
      \<longleftrightarrow> v_checks (fst (run_smoke_tests h a w)) \<noteq> []
          \<and> \<not> list_all c_ok (v_checks (fst (run_smoke_tests h a w)))) \<and>
   (which h w ''openssl'' = None
      \<and> \<not> path_exists h w (''/opt/openssl-'' @ target_version a @ ''/bin/openssl'')
      \<and> \<not> truthy (health_url a)
      \<longrightarrow> v_checks (fst (run_smoke_tests h a w)) = [])"
proof -
  obtain cs where shape: "fst (run_smoke_tests h a w) =
      \<lparr>v_status = (if list_all c_ok cs \<and> cs \<noteq> [] then ''pass''
                    else (if cs \<noteq> [] then ''fail'' else ''no-checks'')),
       v_checks = cs\<rparr>"
    using smoke_shape [of h a w] by (elim exE) (rule that)
  have verdicts: "(''no-checks'' :: string) \<noteq> ''pass''" "(''no-checks'' :: string) \<noteq> ''fail''"
    "(''pass'' :: string) \<noteq> ''fail''"
    by simp_all
  have 1: "v_status (fst (run_smoke_tests h a w)) = ''no-checks''
             \<longleftrightarrow> v_checks (fst (run_smoke_tests h a w)) = []"
    unfolding shape using verdicts by (cases "cs = []"; cases "list_all c_ok cs") auto
  have 2: "v_status (fst (run_smoke_tests h a w)) = ''pass''
             \<longleftrightarrow> v_checks (fst (run_smoke_tests h a w)) \<noteq> []
                 \<and> list_all c_ok (v_checks (fst (run_smoke_tests h a w)))"
    unfolding shape using verdicts by (cases "cs = []"; cases "list_all c_ok cs") auto
  have 3: "v_status (fst (run_smoke_tests h a w)) = ''fail''
             \<longleftrightarrow> v_checks (fst (run_smoke_tests h a w)) \<noteq> []
                 \<and> \<not> list_all c_ok (v_checks (fst (run_smoke_tests h a w)))"
    unfolding shape using verdicts by (cases "cs = []"; cases "list_all c_ok cs") auto
  from 1 2 3 smoke_nothing_to_check [of h w a] show ?thesis by blast
qed

theorem smoke_verdict_witness:
  "which bare_host () ''openssl'' = None \<and>
   \<not> path_exists bare_host () (''/opt/openssl-'' @ target_version plain_agent @ ''/bin/openssl'') \<and>
   \<not> truthy (health_url plain_agent) \<and>
   v_checks (fst (run_smoke_tests bare_host plain_agent ())) = [] \<and>
   v_status (fst (run_smoke_tests bare_host plain_agent ())) = ''no-checks''"
proof -
  have p: "which bare_host () ''openssl'' = None"
    "\<not> path_exists bare_host () (''/opt/openssl-'' @ target_version plain_agent @ ''/bin/openssl'')"
    "\<not> truthy (health_url plain_agent)"
    by (simp_all add: bare_host_def plain_agent_def truthy_def)
  with smoke_verdict [of bare_host plain_agent "()"] show ?thesis by blast
qed

subsection \<open>The dispatch on the first detected package manager\<close>

lemma detect_head:
  assumes "which h w ''apt'' = None" "which h w ''dnf'' = None" "which h w ''yum'' = None"
    "which h w ''apk'' = None" "which h w ''brew'' = None"
    "which h w ''zypper'' \<noteq> None \<or> which h w ''pkg'' \<noteq> None"
  shows "\<exists>rest. fst (detect_package_managers h w) = ''zypper'' # rest
            \<or> fst (detect_package_managers h w) = ''pkg'' # rest"
proof (cases "which h w ''zypper'' = None")
  case True
  with assms(6) have "which h w ''pkg'' \<noteq> None" by simp
  with True assms(1-5) show ?thesis
    by (simp add: detect_package_managers_def pm_candidates_def split del: if_split)
next
  case False
  with assms(1-5) show ?thesis
    by (simp add: detect_package_managers_def pm_candidates_def split del: if_split)
qed

lemma pm_exec_simps [simp]:
  "pm_exec (Exec (x # y # ys) c) =
     (x \<in> set pm_candidates \<or> (x = ''sudo'' \<and> y \<in> set pm_candidates))"
  "pm_exec (Exec [x] c) = (x \<in> set pm_candidates)"
  "pm_exec (Log s t n) = False"
  "pm_exec (Write_file p) = False"
  "pm_exec (Download u) = False"
  "pm_exec (Prompt items) = False"
  by (simp_all add: pm_exec_def)

lemma build_tools_not_pm [simp]:
  "''bash'' \<notin> set pm_candidates" "''tar'' \<notin> set pm_candidates" "''make'' \<notin> set pm_candidates"
  "''gmake'' \<notin> set pm_candidates" "''ldconfig'' \<notin> set pm_candidates"
  "''sudo'' \<notin> set pm_candidates" "''./config'' \<notin> set pm_candidates"
  "''./Configure'' \<notin> set pm_candidates"
  by (simp_all add: pm_candidates_def)

lemma run_cmd_execD:
  "run_cmd h cmd cwd sudo w = (r, ev, w') \<Longrightarrow>
     ev = [Exec (if sudo \<and> os_name h \<noteq> ''nt'' then ''sudo'' # cmd else cmd) cwd]"
  by (auto simp: run_cmd_def Let_def split: prod.splits sum.splits)

lemma si_register_nopm:
  "si_register h v pfx st w = (res, ev, w') \<Longrightarrow> list_all (\<lambda>e. \<not> pm_exec e) ev"
  by (auto simp: si_register_def Let_def log_of_def
           split: prod.splits option.splits if_splits dest!: run_cmd_execD)

lemma si_install_nopm:
  "si_install h v pfx srcdir st w = (res, ev, w') \<Longrightarrow> list_all (\<lambda>e. \<not> pm_exec e) ev"
  by (auto simp: si_install_def Let_def log_of_def
           split: prod.splits if_splits dest!: run_cmd_execD dest: si_register_nopm)

lemma si_make_nopm:
  "si_make h v pfx srcdir st w = (res, ev, w') \<Longrightarrow> list_all (\<lambda>e. \<not> pm_exec e) ev"
  by (auto simp: si_make_def Let_def log_of_def
           split: prod.splits if_splits dest!: run_cmd_execD dest: si_install_nopm)

lemma si_configure_nopm:
  "si_configure h p v pfx srcdir st w = (res, ev, w') \<Longrightarrow> list_all (\<lambda>e. \<not> pm_exec e) ev"
  by (auto simp: si_configure_def Let_def log_of_def cfg_cmd_def alt_cmd_def
           split: prod.splits if_splits dest!: run_cmd_execD dest: si_make_nopm)

lemma si_extract_nopm:
  "si_extract h p v pfx workdir st w = (res, ev, w') \<Longrightarrow> list_all (\<lambda>e. \<not> pm_exec e) ev"
  by (auto simp: si_extract_def Let_def log_of_def
           split: prod.splits if_splits option.splits dest!: run_cmd_execD dest: si_configure_nopm)

lemma si_download_nopm:
  "si_download h p v pfx workdir w = (res, ev, w') \<Longrightarrow> list_all (\<lambda>e. \<not> pm_exec e) ev"
  by (auto simp: si_download_def Let_def log_of_def
           split: prod.splits if_splits option.splits dest!: run_cmd_execD dest: si_extract_nopm)

lemma side_install_nopm:
  "side_install_from_source h p v prefix_arg w = (res, ev, w') \<Longrightarrow> list_all (\<lambda>e. \<not> pm_exec e) ev"
  by (auto simp: side_install_from_source_def Let_def log_of_def
           split: prod.splits if_splits option.splits dest: si_download_nopm)

lemma confirm_events:
  "confirm_upgrade h a items w = (ok, ev, w1) \<Longrightarrow> ev = [Prompt items]"
  by (auto simp: confirm_upgrade_def Let_def split: prod.splits option.splits if_splits)

lemma source_build_events:
  "\<exists>rest. fst (snd (source_build h a platform w)) =
            Prompt [''OpenSSL '' @ target_version a @ '' (source build)''] # rest \<and>
          list_all (\<lambda>e. \<not> pm_exec e) rest"
proof -
  obtain ok ev1 w1 where c:
    "confirm_upgrade h a [''OpenSSL '' @ target_version a @ '' (source build)''] w = (ok, ev1, w1)"
    by (cases "confirm_upgrade h a [''OpenSSL '' @ target_version a @ '' (source build)''] w")
  note e1 = confirm_events [OF c]
  obtain r ev2 w2 where s:
    "side_install_from_source h platform (target_version a) None w1 = (r, ev2, w2)"
    by (cases "side_install_from_source h platform (target_version a) None w1")
  note e2 = side_install_nopm [OF s]
  show ?thesis
    using c s e1 e2 by (cases ok; cases r) (simp_all add: source_build_def)
qed

text \<open>
  Claim C10. When the detected package managers contain zypper or pkg and none of
  apt, dnf, yum, apk and brew, the chosen strategy kind is \<open>package-manager\<close>, and
  step 7 of decide_and_execute is the source build: it first asks to confirm the
  item \<open>OpenSSL <version> (source build)\<close>, returns aborted when that is declined, and
  otherwise runs side_install_from_source and logs its result; none of its events is
  a call of a package manager.
\<close>

theorem zypper_pkg_fall_through:
  assumes "pms = fst (detect_package_managers h w)"
    and "''zypper'' \<in> set pms \<or> ''pkg'' \<in> set pms"
    and "''apt'' \<notin> set pms" "''dnf'' \<notin> set pms" "''yum'' \<notin> set pms"
        "''apk'' \<notin> set pms" "''brew'' \<notin> set pms"
  shows "s_type (choose_strategy pms) = ''package-manager'' \<and>
         perform_upgrade h a platform (choose_strategy pms) pms w' =
           (let (ok, ev1, w1) =
                  confirm_upgrade h a [''OpenSSL '' @ target_version a @ '' (source build)''] w'
            in if \<not> ok then (Inr False, ev1, w1)
               else (case side_install_from_source h platform (target_version a) None w1 of
                       (Inl e, ev2, w2) \<Rightarrow> (Inl e, ev1 @ ev2, w2)
                     | (Inr res, ev2, w2) \<Rightarrow>
                         (Inr True,
                          ev1 @ ev2 @ [Log (Some ''side-install-result'') ''side-install''
                                         (if b_status res = ''ok'' then 0 else 1)],
                          w2))) \<and>
         hd (fst (snd (perform_upgrade h a platform (choose_strategy pms) pms w')))
           = Prompt [''OpenSSL '' @ target_version a @ '' (source build)''] \<and>
         filter pm_exec (fst (snd (perform_upgrade h a platform (choose_strategy pms) pms w'))) = []"
proof -
  have absent: "which h w x = None" if "x \<in> set pm_candidates" "x \<notin> set pms" for x
    using that assms(1) by (auto simp: detect_package_managers_def)
  have present: "which h w x \<noteq> None" if "x \<in> set pms" for x
    using that assms(1) by (auto simp: detect_package_managers_def)
  have ws: "which h w ''apt'' = None" "which h w ''dnf'' = None" "which h w ''yum'' = None"
    "which h w ''apk'' = None" "which h w ''brew'' = None"
    using assms(3-7) by (simp_all add: absent pm_candidates_def)
  have wz: "which h w ''zypper'' \<noteq> None \<or> which h w ''pkg'' \<noteq> None"
    using assms(2) present by blast
  from detect_head [OF ws wz] assms(1)
  obtain rest where hd: "pms = ''zypper'' # rest \<or> pms = ''pkg'' # rest" by auto
  have st: "s_type (choose_strategy pms) = ''package-manager''"
    using assms(2) by (auto simp: choose_strategy_type first_class_set)
  from hd have "item pms 0 = Inr ''zypper'' \<or> item pms 0 = Inr ''pkg''"
    by (auto simp: item_def)
  then have pu: "perform_upgrade h a platform (choose_strategy pms) pms w' = source_build h a platform w'"
    using st by (auto simp: perform_upgrade_def)
  from source_build_events [of h a platform w'] obtain tl where
    ev: "fst (snd (source_build h a platform w')) =
           Prompt [''OpenSSL '' @ target_version a @ '' (source build)''] # tl"
    and tl: "list_all (\<lambda>e. \<not> pm_exec e) tl"
    by (elim exE conjE)
  from tl have "filter pm_exec tl = []" by (simp add: filter_empty_conv list_all_iff)
  with st pu ev show ?thesis
    by (simp add: source_build_def)
qed

theorem zypper_pkg_fall_through_witness:
  "''zypper'' \<in> set (fst (detect_package_managers zypper_host ())) \<and>
   ''apt'' \<notin> set (fst (detect_package_managers zypper_host ())) \<and>
   s_type (choose_strategy (fst (detect_package_managers zypper_host ()))) = ''package-manager'' \<and>
   hd (fst (snd (perform_upgrade zypper_host plain_agent ''linux''
       (choose_strategy (fst (detect_package_managers zypper_host ())))
       (fst (detect_package_managers zypper_host ())) ())))
     = Prompt [''OpenSSL '' @ target_version plain_agent @ '' (source build)''] \<and>
   filter pm_exec (fst (snd (perform_upgrade zypper_host plain_agent ''linux''
       (choose_strategy (fst (detect_package_managers zypper_host ())))
       (fst (detect_package_managers zypper_host ())) ()))) = []"
proof -
  have pms: "fst (detect_package_managers zypper_host ()) = [''zypper'', ''rpm'']"
    by (simp add: detect_package_managers_def pm_candidates_def zypper_host_def bare_host_def)
  have z: "''zypper'' \<in> set [''zypper'', ''rpm''] \<or> ''pkg'' \<in> set [''zypper'', ''rpm'']" by simp
  have n: "''apt'' \<notin> set [''zypper'', ''rpm'']" "''dnf'' \<notin> set [''zypper'', ''rpm'']"
    "''yum'' \<notin> set [''zypper'', ''rpm'']" "''apk'' \<notin> set [''zypper'', ''rpm'']"
    "''brew'' \<notin> set [''zypper'', ''rpm'']" by simp_all
  note t = zypper_pkg_fall_through [OF pms [symmetric] z n, of plain_agent "''linux''" "()"]
  have z1: "''zypper'' \<in> set [''zypper'', ''rpm'']" by simp
  show ?thesis
    unfolding pms
    by (intro conjI z1 n(1) conjunct1 [OF t] conjunct1 [OF conjunct2 [OF conjunct2 [OF t]]]
          conjunct2 [OF conjunct2 [OF conjunct2 [OF t]]])
qed

subsection \<open>The prefix in the result of the source build\<close>

lemma failed_shape [simp]: "recorded_prefix pfx (failed st)"
  by (simp add: recorded_prefix_def failed_def)










subsection \<open>The configure fallback of the source build\<close>

lemma run_cmdD:
  "run_cmd h cmd cwd sudo w = (r, ev, w') \<Longrightarrow>
     ev = [Exec (if sudo \<and> os_name h \<noteq> ''nt'' then ''sudo'' # cmd else cmd) cwd] \<and>
     r_cmd r = join '' '' (if sudo \<and> os_name h \<noteq> ''nt'' then ''sudo'' # cmd else cmd)"
  by (auto simp: run_cmd_def Let_def split: prod.splits sum.splits)

lemma take2_join: "2 \<le> length x \<Longrightarrow> take 2 (join sep (x # xs)) = take 2 x"
  by (cases xs) simp_all

lemma cfg_event_simps [simp]:
  "cfg_event (Exec (x # xs) c) = (take 2 x = ''./'')"
  "cfg_event (Log s t n) = (take 2 t = ''./'')"
  "cfg_event (Write_file p) = False"
  "cfg_event (Download u) = False"
  by (simp_all add: cfg_event_def)

lemma make_exec_simps [simp]:
  "make_exec (Exec (x # xs) c) = (x = ''make'' \<or> x = ''gmake'')"
  "make_exec (Log s t n) = False"
  "make_exec (Write_file p) = False"
  "make_exec (Download u) = False"
  by (simp_all add: make_exec_def)

lemma si_register_nocfg:
  "si_register h v pfx st w = (res, ev, w') \<Longrightarrow> list_all (\<lambda>e. \<not> cfg_event e) ev"
  by (auto simp: si_register_def Let_def log_of_def take2_join
           split: prod.splits option.splits if_splits dest!: run_cmdD)

lemma si_install_nocfg:
  "si_install h v pfx srcdir st w = (res, ev, w') \<Longrightarrow> list_all (\<lambda>e. \<not> cfg_event e) ev"
  by (auto simp: si_install_def Let_def log_of_def take2_join
           split: prod.splits if_splits dest!: run_cmdD dest: si_register_nocfg)

lemma si_make_nocfg:
  "si_make h v pfx srcdir st w = (res, ev, w') \<Longrightarrow> list_all (\<lambda>e. \<not> cfg_event e) ev"
  by (auto simp: si_make_def Let_def log_of_def take2_join
           split: prod.splits if_splits dest!: run_cmdD dest: si_install_nocfg)

lemma cfg_facts [simp]:
  "cfg_event (Exec (cfg_cmd p pfx) c)" "cfg_event (Exec (alt_cmd pfx) c)"
  "cfg_event (Log s (join '' '' (cfg_cmd p pfx)) x)" "cfg_event (Log s (join '' '' (alt_cmd pfx)) x)"
  "\<not> make_exec (Exec (cfg_cmd p pfx) c)" "\<not> make_exec (Exec (alt_cmd pfx) c)"
  "take 2 (join '' '' (cfg_cmd p pfx)) = ''./''" "take 2 (join '' '' (alt_cmd pfx)) = ''./''"
  by (simp_all add: cfg_cmd_def alt_cmd_def)

lemma cfg_alt_differ [simp]:
  "cfg_cmd p pfx \<noteq> alt_cmd pfx"
  "join '' '' (cfg_cmd p pfx) \<noteq> join '' '' (alt_cmd pfx)"
  "alt_cmd pfx \<noteq> cfg_cmd p pfx"
  "join '' '' (alt_cmd pfx) \<noteq> join '' '' (cfg_cmd p pfx)"
  by (simp_all add: cfg_cmd_def alt_cmd_def)

lemma nocfg_notin:
  "list_all (\<lambda>e. \<not> cfg_event e) T \<Longrightarrow> cfg_event e \<Longrightarrow> e \<notin> set T"
  by (auto simp: list_all_iff)

lemma nocfg_filter:
  "list_all (\<lambda>e. \<not> cfg_event e) T \<Longrightarrow> filter (is_exec_of (alt_cmd pfx)) T = []"
proof -
  assume a: "list_all (\<lambda>e. \<not> cfg_event e) T"
  have "\<not> is_exec_of (alt_cmd pfx) e" if "e \<in> set T" for e
  proof
    assume "is_exec_of (alt_cmd pfx) e"
    then obtain c where "e = Exec (alt_cmd pfx) c" by (cases e) (simp_all add: is_exec_of_def)
    with that a show False by (auto simp: list_all_iff)
  qed
  then show ?thesis by (simp add: filter_empty_conv)
qed

lemma si_configure_shape:
  assumes "si_configure h p v pfx srcdir st w = (res, ev, w')"
  shows "\<exists>x T. ev = Exec (cfg_cmd p pfx) (Some srcdir) # Log None (join '' '' (cfg_cmd p pfx)) x # T \<and>
     ((x = 0 \<and> list_all (\<lambda>e. \<not> cfg_event e) T) \<or>
      (x \<noteq> 0 \<and> (\<exists>y T'. T = Exec (alt_cmd pfx) (Some srcdir)
                             # Log None (join '' '' (alt_cmd pfx)) y # T' \<and>
                    list_all (\<lambda>e. \<not> cfg_event e) T' \<and>
                    (y \<noteq> 0 \<longrightarrow> T' = [] \<and> (\<exists>st'. res = failed st')))))"
proof -
  obtain r e1 w1 where r1: "run_cmd h (cfg_cmd p pfx) (Some srcdir) False w = (r, e1, w1)"
    by (cases "run_cmd h (cfg_cmd p pfx) (Some srcdir) False w")
  from run_cmdD [OF r1] have e1: "e1 = [Exec (cfg_cmd p pfx) (Some srcdir)]"
    and c1: "r_cmd r = join '' '' (cfg_cmd p pfx)" by simp_all
  show ?thesis
  proof (cases "r_exit r = 0")
    case True
    obtain res3 ev3 w3 where mk: "si_make h v pfx srcdir (st @ [r]) w1 = (res3, ev3, w3)"
      by (cases "si_make h v pfx srcdir (st @ [r]) w1")
    from assms r1 True mk have "ev = e1 @ [log_of r] @ ev3"
      by (simp add: si_configure_def Let_def)
    with e1 c1 True si_make_nocfg [OF mk] show ?thesis
      by (simp add: log_of_def)
  next
    case False
    obtain r2 e2 w2 where r2: "run_cmd h (alt_cmd pfx) (Some srcdir) False w1 = (r2, e2, w2)"
      by (cases "run_cmd h (alt_cmd pfx) (Some srcdir) False w1")
    from run_cmdD [OF r2] have e2: "e2 = [Exec (alt_cmd pfx) (Some srcdir)]"
      and c2: "r_cmd r2 = join '' '' (alt_cmd pfx)" by simp_all
    show ?thesis
    proof (cases "r_exit r2 = 0")
      case True
      obtain res3 ev3 w3 where mk: "si_make h v pfx srcdir (st @ [r, r2]) w2 = (res3, ev3, w3)"
        by (cases "si_make h v pfx srcdir (st @ [r, r2]) w2")
      from assms r1 r2 \<open>r_exit r \<noteq> 0\<close> True mk
      have "ev = e1 @ [log_of r] @ e2 @ [log_of r2] @ ev3"
        by (simp add: si_configure_def Let_def)
      with e1 c1 e2 c2 \<open>r_exit r \<noteq> 0\<close> True si_make_nocfg [OF mk] show ?thesis
        by (simp add: log_of_def)
    next
      case F2: False
      from assms r1 r2 False F2
      have "ev = e1 @ [log_of r] @ e2 @ [log_of r2]" "res = failed (st @ [r, r2])"
        by (simp_all add: si_configure_def Let_def)
      with e1 c1 e2 c2 False F2 show ?thesis
        by (auto simp: log_of_def)
    qed
  qed
qed

lemma conf_lift:
  assumes pre: "list_all (\<lambda>e. \<not> cfg_event e \<and> \<not> make_exec e) pre"
    and conf: "si_configure h p v pfx srcdir st w = (res, cev, w')"
    and log: "Log None (join '' '' (cfg_cmd p pfx)) x \<in> set (pre @ cev)" "x \<noteq> 0"
  shows "length (filter (is_exec_of (alt_cmd pfx)) (pre @ cev)) = 1 \<and>
         (\<forall>y. Log None (join '' '' (alt_cmd pfx)) y \<in> set (pre @ cev) \<and> y \<noteq> 0 \<longrightarrow>
              filter make_exec (pre @ cev) = [] \<and> (\<exists>st'. res = failed st'))"
proof -
  from pre have pre_cfg: "list_all (\<lambda>e. \<not> cfg_event e) pre"
    and pre_make: "filter make_exec pre = []"
    by (auto simp: list_all_iff filter_empty_conv)
  note pre_alt = nocfg_filter [OF pre_cfg, of pfx]
  have not_pre: "e \<notin> set pre" if "cfg_event e" for e
    using nocfg_notin [OF pre_cfg that] .
  from si_configure_shape [OF conf] obtain x0 T where
    ev: "cev = Exec (cfg_cmd p pfx) (Some srcdir) # Log None (join '' '' (cfg_cmd p pfx)) x0 # T"
    and sh: "(x0 = 0 \<and> list_all (\<lambda>e. \<not> cfg_event e) T) \<or>
      (x0 \<noteq> 0 \<and> (\<exists>y T'. T = Exec (alt_cmd pfx) (Some srcdir)
                             # Log None (join '' '' (alt_cmd pfx)) y # T' \<and>
                    list_all (\<lambda>e. \<not> cfg_event e) T' \<and>
                    (y \<noteq> 0 \<longrightarrow> T' = [] \<and> (\<exists>st'. res = failed st'))))"
    by blast
  from sh show ?thesis
  proof
    assume ok: "x0 = 0 \<and> list_all (\<lambda>e. \<not> cfg_event e) T"
    then have "Log None (join '' '' (cfg_cmd p pfx)) x \<notin> set T"
      by (intro nocfg_notin) simp_all
    with log ev ok not_pre [of "Log None (join '' '' (cfg_cmd p pfx)) x"] have False
      by auto
    then show ?thesis ..
  next
    assume "x0 \<noteq> 0 \<and> (\<exists>y T'. T = Exec (alt_cmd pfx) (Some srcdir)
                             # Log None (join '' '' (alt_cmd pfx)) y # T' \<and>
                    list_all (\<lambda>e. \<not> cfg_event e) T' \<and>
                    (y \<noteq> 0 \<longrightarrow> T' = [] \<and> (\<exists>st'. res = failed st')))"
    then obtain y0 T' where
      T: "T = Exec (alt_cmd pfx) (Some srcdir) # Log None (join '' '' (alt_cmd pfx)) y0 # T'"
      and T'_cfg: "list_all (\<lambda>e. \<not> cfg_event e) T'"
      and fail: "y0 \<noteq> 0 \<longrightarrow> T' = [] \<and> (\<exists>st'. res = failed st')"
      by blast
    have count: "length (filter (is_exec_of (alt_cmd pfx)) (pre @ cev)) = 1"
      using pre_alt nocfg_filter [OF T'_cfg, of pfx]
      by (simp add: ev T is_exec_of_def)
    have later: "filter make_exec (pre @ cev) = [] \<and> (\<exists>st'. res = failed st')"
      if "Log None (join '' '' (alt_cmd pfx)) y \<in> set (pre @ cev)" "y \<noteq> 0" for y
    proof -
      have "Log None (join '' '' (alt_cmd pfx)) y \<notin> set T'"
        using T'_cfg by (intro nocfg_notin) simp_all
      with that(1) not_pre [of "Log None (join '' '' (alt_cmd pfx)) y"]
      have "y = y0" by (auto simp: ev T)
      with that(2) fail have "T' = []" "\<exists>st'. res = failed st'" by simp_all
      then show ?thesis using pre_make by (simp add: ev T)
    qed
    from count later show ?thesis by blast
  qed
qed

lemma clean_simps [simp]:
  "clean (Exec (x # xs) c) = (take 2 x \<noteq> ''./'' \<and> x \<noteq> ''make'' \<and> x \<noteq> ''gmake'')"
  "clean (Log s t n) = (take 2 t \<noteq> ''./'')"
  "clean (Download u)"
  by (auto simp: clean_def)

lemma si_extract_split:
  assumes "si_extract h p v pfx workdir st w = (r, ev, w')"
  shows "list_all clean ev \<or>
         (\<exists>pre srcdir st' w1 res cev w2. ev = pre @ cev \<and> list_all clean pre \<and>
             si_configure h p v pfx srcdir st' w1 = (res, cev, w2) \<and> r = Inr res)"
proof -
  obtain t e1 w1 where r1:
    "run_cmd h [''tar'', ''xzf'', path_join workdir (''openssl-'' @ v @ ''.tar.gz''), ''-C'', workdir]
       None False w = (t, e1, w1)"
    by (cases "run_cmd h [''tar'', ''xzf'', path_join workdir (''openssl-'' @ v @ ''.tar.gz''), ''-C'', workdir]
       None False w")
  from run_cmdD [OF r1] have c: "list_all clean (e1 @ [log_of t])"
    by (simp add: log_of_def take2_join)
  show ?thesis
  proof (cases "r_exit t \<noteq> 0 \<or> first_srcdir h w1 workdir = None")
    case True
    with assms r1 have "ev = e1 @ [log_of t]"
      by (auto simp: si_extract_def Let_def split: if_splits option.splits)
    with c show ?thesis by simp
  next
    case False
    then obtain srcdir where s: "first_srcdir h w1 workdir = Some srcdir" and t0: "r_exit t = 0"
      by auto
    obtain res cev w2 where cf: "si_configure h p v pfx srcdir (st @ [t]) w1 = (res, cev, w2)"
      by (cases "si_configure h p v pfx srcdir (st @ [t]) w1")
    from assms r1 s t0 cf have "ev = (e1 @ [log_of t]) @ cev" "r = Inr res"
      by (simp_all add: si_extract_def Let_def)
    with c cf show ?thesis by blast
  qed
qed

lemma shape_prepend:
  assumes "list_all clean A"
    and "list_all clean B \<or>
         (\<exists>pre srcdir st' w1 res cev w2. B = pre @ cev \<and> list_all clean pre \<and>
             si_configure h p v pfx srcdir st' w1 = (res, cev, w2) \<and> r = Inr res)"
  shows "list_all clean (A @ B) \<or>
         (\<exists>pre srcdir st' w1 res cev w2. A @ B = pre @ cev \<and> list_all clean pre \<and>
             si_configure h p v pfx srcdir st' w1 = (res, cev, w2) \<and> r = Inr res)"
  using assms(2)
proof
  assume "list_all clean B"
  with assms(1) show ?thesis by simp
next
  assume "\<exists>pre srcdir st' w1 res cev w2. B = pre @ cev \<and> list_all clean pre \<and>
             si_configure h p v pfx srcdir st' w1 = (res, cev, w2) \<and> r = Inr res"
  then obtain pre srcdir st' w1 res cev w2 where
    B: "B = pre @ cev" and pre: "list_all clean pre"
    and cf: "si_configure h p v pfx srcdir st' w1 = (res, cev, w2)" and r: "r = Inr res"
    by blast
  have "A @ B = (A @ pre) @ cev" by (simp add: B)
  moreover have "list_all clean (A @ pre)" using assms(1) pre by simp
  ultimately show ?thesis using cf r by blast
qed

lemma si_download_split:
  assumes "si_download h p v pfx workdir w = (r, ev, w')"
  shows "list_all clean ev \<or>
         (\<exists>pre srcdir st' w1 res cev w2. ev = pre @ cev \<and> list_all clean pre \<and>
             si_configure h p v pfx srcdir st' w1 = (res, cev, w2) \<and> r = Inr res)"
proof -
  define url where "url = ''https://www.openssl.org/source/'' @ (''openssl-'' @ v @ ''.tar.gz'')"
  define curl where "curl = [''bash'', ''-lc'',
      ''curl -fL '' @ url @ '' -o '' @ workdir @ ''/'' @ (''openssl-'' @ v @ ''.tar.gz'')]"
  obtain c e1 w1 where r1: "run_cmd h curl None False w = (c, e1, w1)"
    by (cases "run_cmd h curl None False w")
  from run_cmdD [OF r1] have c1: "list_all clean (e1 @ [log_of c])"
    by (simp add: log_of_def take2_join curl_def)
  show ?thesis
  proof (cases "r_exit c = 0")
    case True
    obtain r2 ev2 w3 where ex: "si_extract h p v pfx workdir [c] w1 = (r2, ev2, w3)"
      by (cases "si_extract h p v pfx workdir [c] w1")
    from assms r1 True ex have "ev = (e1 @ [log_of c]) @ ev2" "r = r2"
      by (simp_all add: si_download_def Let_def curl_def url_def)
    with shape_prepend [OF c1 si_extract_split [OF ex]] show ?thesis by simp
  next
    case False
    obtain derr w2 where dl:
      "urlopen_save h w1 url (path_join workdir (''openssl-'' @ v @ ''.tar.gz'')) = (derr, w2)"
      by (cases "urlopen_save h w1 url (path_join workdir (''openssl-'' @ v @ ''.tar.gz''))")
    show ?thesis
    proof (cases derr)
      case None
      define e where "e = \<lparr>r_cmd = ''urllib-download'', r_exit = 0,
           r_stdout = ''downloaded to '' @ workdir @ ''/'' @ (''openssl-'' @ v @ ''.tar.gz''),
           r_stderr = []\<rparr>"
      obtain r2 ev2 w3 where ex: "si_extract h p v pfx workdir [c, e] w2 = (r2, ev2, w3)"
        by (cases "si_extract h p v pfx workdir [c, e] w2")
      have c2: "list_all clean (e1 @ [log_of c, Download url, log_of e])"
        using c1 by (simp add: log_of_def e_def)
      from assms r1 False dl None ex
      have "ev = (e1 @ [log_of c, Download url, log_of e]) @ ev2" "r = r2"
        by (simp_all add: si_download_def Let_def curl_def url_def e_def)
      with shape_prepend [OF c2 si_extract_split [OF ex]] show ?thesis by simp
    next
      case (Some msg)
      from assms r1 False dl Some
      have "ev = e1 @ [log_of c, Download url,
                       log_of \<lparr>r_cmd = ''download-failed'', r_exit = 1, r_stdout = [], r_stderr = msg\<rparr>]"
        by (simp add: si_download_def Let_def curl_def url_def)
      with c1 show ?thesis by (simp add: log_of_def)
    qed
  qed
qed

lemma side_install_split:
  assumes "side_install_from_source h p v prefix_arg w = (r, ev, w')"
    and "pfx = (case prefix_arg of None \<Rightarrow> ''/opt/openssl-'' @ v | Some q \<Rightarrow> q)"
  shows "list_all clean ev \<or>
         (\<exists>pre srcdir st' w1 res cev w2. ev = pre @ cev \<and> list_all clean pre \<and>
             si_configure h p v pfx srcdir st' w1 = (res, cev, w2) \<and> r = Inr res)"
proof -
  obtain tmp w0 where mk: "mkdtemp h w = (tmp, w0)" by (cases "mkdtemp h w")
  show ?thesis
  proof (cases tmp)
    case None
    with assms mk have "ev = []" by (simp add: side_install_from_source_def Let_def)
    then show ?thesis by simp
  next
    case (Some workdir)
    show ?thesis
    proof (cases "missing_tools h p w0 = []")
      case True
      with assms mk Some have "si_download h p v pfx workdir w0 = (r, ev, w')"
        by (simp add: side_install_from_source_def Let_def)
      then show ?thesis by (rule si_download_split)
    next
      case False
      with assms mk Some have "\<exists>e. ev = [log_of e] \<and> r_cmd e = ''check-build-tools''"
        by (auto simp: side_install_from_source_def Let_def)
      then show ?thesis by (auto simp: log_of_def)
    qed
  qed
qed

text \<open>
  Claim C6. In every run of side_install_from_source whose audit trail records the
  primary configure command with a non-zero exit code, the fallback configure
  command is called exactly once; and if the trail also records the fallback with a
  non-zero exit code, no make or gmake command (build, test, install) is called and
  the function returns the result with status error.
\<close>

theorem configure_fallback:
  assumes "Log None (join '' '' (cfg_cmd platform pfx)) x
             \<in> set (fst (snd (side_install_from_source h platform version prefix_arg w)))"
    and "x \<noteq> 0"
    and "pfx = (case prefix_arg of None \<Rightarrow> ''/opt/openssl-'' @ version | Some q \<Rightarrow> q)"
  shows "length (filter (is_exec_of (alt_cmd pfx))
                   (fst (snd (side_install_from_source h platform version prefix_arg w)))) = 1 \<and>
         (\<forall>y. Log None (join '' '' (alt_cmd pfx)) y
                 \<in> set (fst (snd (side_install_from_source h platform version prefix_arg w)))
               \<and> y \<noteq> 0 \<longrightarrow>
              filter make_exec (fst (snd (side_install_from_source h platform version prefix_arg w))) = [] \<and>
              (\<exists>st. fst (side_install_from_source h platform version prefix_arg w) = Inr (failed st)))"
proof -
  obtain r ev w' where run: "side_install_from_source h platform version prefix_arg w = (r, ev, w')"
    by (cases "side_install_from_source h platform version prefix_arg w")
  from assms(1) run have mem: "Log None (join '' '' (cfg_cmd platform pfx)) x \<in> set ev" by simp
  from side_install_split [OF run assms(3)] show ?thesis
  proof
    assume "list_all clean ev"
    with mem have "clean (Log None (join '' '' (cfg_cmd platform pfx)) x)"
      by (auto simp: list_all_iff)
    then show ?thesis by simp
  next
    assume "\<exists>pre srcdir st' w1 res cev w2. ev = pre @ cev \<and> list_all clean pre \<and>
             si_configure h platform version pfx srcdir st' w1 = (res, cev, w2) \<and> r = Inr res"
    then obtain pre srcdir st' w1 res cev w2 where
      ev: "ev = pre @ cev" and pre: "list_all clean pre"
      and cf: "si_configure h platform version pfx srcdir st' w1 = (res, cev, w2)"
      and r: "r = Inr res"
      by blast
    from pre have pre': "list_all (\<lambda>e. \<not> cfg_event e \<and> \<not> make_exec e) pre"
      by (simp add: clean_def list_all_iff)
    from conf_lift [OF pre' cf mem [unfolded ev] assms(2)] show ?thesis
      by (simp add: run ev r)
  qed
qed

lemma broken_run:
  "run_cmd broken_configure_host (x # xs) cwd False () =
     (\<lparr>r_cmd = join '' '' (x # xs), r_exit = (if take 2 x = ''./'' then 1 else 0),
       r_stdout = [], r_stderr = []\<rparr>, [Exec (x # xs) cwd], ())"
  by (simp add: run_cmd_def broken_configure_host_def bare_host_def py_strip_def Let_def)

lemma broken_configure:
  "si_configure broken_configure_host ''linux'' ''3.0.8'' ''/opt/openssl-3.0.8'' srcdir st () =
     (failed (st @ [\<lparr>r_cmd = ''./config --prefix=/opt/openssl-3.0.8 shared'', r_exit = 1,
                      r_stdout = [], r_stderr = []\<rparr>,
                    \<lparr>r_cmd = ''./Configure linux-x86_64 --prefix=/opt/openssl-3.0.8 shared'',
                      r_exit = 1, r_stdout = [], r_stderr = []\<rparr>]),
      [Exec [''./config'', ''--prefix=/opt/openssl-3.0.8'', ''shared''] (Some srcdir),
       Log None ''./config --prefix=/opt/openssl-3.0.8 shared'' 1,
       Exec [''./Configure'', ''linux-x86_64'', ''--prefix=/opt/openssl-3.0.8'', ''shared''] (Some srcdir),
       Log None ''./Configure linux-x86_64 --prefix=/opt/openssl-3.0.8 shared'' 1], ())"
  by (simp add: si_configure_def cfg_cmd_def alt_cmd_def broken_run log_of_def Let_def)

lemma broken_events:
  "fst (snd (side_install_from_source broken_configure_host ''linux'' ''3.0.8'' None ())) =
    [Exec [''bash'', ''-lc'', ''curl -fL https://www.openssl.org/source/openssl-3.0.8.tar.gz -o /tmpab12cd/openssl-3.0.8.tar.gz''] None,
     Log None ''bash -lc curl -fL https://www.openssl.org/source/openssl-3.0.8.tar.gz -o /tmpab12cd/openssl-3.0.8.tar.gz'' 0,
     Exec [''tar'', ''xzf'', ''/tmpab12cd/openssl-3.0.8.tar.gz'', ''-C'', ''/tmpab12cd''] None,
     Log None ''tar xzf /tmpab12cd/openssl-3.0.8.tar.gz -C /tmpab12cd'' 0,
     Exec [''./config'', ''--prefix=/opt/openssl-3.0.8'', ''shared''] (Some ''/tmpab12cd/openssl-3.0.8''),
     Log None ''./config --prefix=/opt/openssl-3.0.8 shared'' 1,
     Exec [''./Configure'', ''linux-x86_64'', ''--prefix=/opt/openssl-3.0.8'', ''shared'']
       (Some ''/tmpab12cd/openssl-3.0.8''),
     Log None ''./Configure linux-x86_64 --prefix=/opt/openssl-3.0.8 shared'' 1]"
proof -
  have tools: "missing_tools broken_configure_host ''linux'' () = []"
    by (simp add: missing_tools_def broken_configure_host_def bare_host_def)
  have tmp: "mkdtemp broken_configure_host () = (Some ''/tmpab12cd'', ())"
    by (simp add: broken_configure_host_def bare_host_def)
  have src: "first_srcdir broken_configure_host () ''/tmpab12cd'' = Some ''/tmpab12cd/openssl-3.0.8''"
    by (simp add: broken_configure_host_def bare_host_def)
  have ext: "fst (snd (si_extract broken_configure_host ''linux'' ''3.0.8'' ''/opt/openssl-3.0.8''
                         ''/tmpab12cd'' st ())) =
    [Exec [''tar'', ''xzf'', ''/tmpab12cd/openssl-3.0.8.tar.gz'', ''-C'', ''/tmpab12cd''] None,
     Log None ''tar xzf /tmpab12cd/openssl-3.0.8.tar.gz -C /tmpab12cd'' 0,
     Exec [''./config'', ''--prefix=/opt/openssl-3.0.8'', ''shared''] (Some ''/tmpab12cd/openssl-3.0.8''),
     Log None ''./config --prefix=/opt/openssl-3.0.8 shared'' 1,
     Exec [''./Configure'', ''linux-x86_64'', ''--prefix=/opt/openssl-3.0.8'', ''shared'']
       (Some ''/tmpab12cd/openssl-3.0.8''),
     Log None ''./Configure linux-x86_64 --prefix=/opt/openssl-3.0.8 shared'' 1]" for st
    by (simp add: si_extract_def broken_run src broken_configure path_join_def log_of_def Let_def)
  have dl: "fst (snd (si_download broken_configure_host ''linux'' ''3.0.8'' ''/opt/openssl-3.0.8''
                        ''/tmpab12cd'' ())) =
    [Exec [''bash'', ''-lc'', ''curl -fL https://www.openssl.org/source/openssl-3.0.8.tar.gz -o /tmpab12cd/openssl-3.0.8.tar.gz''] None,
     Log None ''bash -lc curl -fL https://www.openssl.org/source/openssl-3.0.8.tar.gz -o /tmpab12cd/openssl-3.0.8.tar.gz'' 0]
    @ fst (snd (si_extract broken_configure_host ''linux'' ''3.0.8'' ''/opt/openssl-3.0.8''
                  ''/tmpab12cd''
                  [\<lparr>r_cmd = ''bash -lc curl -fL https://www.openssl.org/source/openssl-3.0.8.tar.gz -o /tmpab12cd/openssl-3.0.8.tar.gz'',
                    r_exit = 0, r_stdout = [], r_stderr = []\<rparr>] ()))"
    by (simp add: si_download_def broken_run log_of_def case_prod_beta Let_def)
  show ?thesis
    by (simp add: side_install_from_source_def tools tmp dl ext Let_def)
qed

theorem configure_fallback_witness:
  "Log None (join '' '' (cfg_cmd ''linux'' ''/opt/openssl-3.0.8'')) 1
     \<in> set (fst (snd (side_install_from_source broken_configure_host ''linux'' ''3.0.8'' None ()))) \<and>
   length (filter (is_exec_of (alt_cmd ''/opt/openssl-3.0.8''))
             (fst (snd (side_install_from_source broken_configure_host ''linux'' ''3.0.8'' None ())))) = 1 \<and>
   Log None (join '' '' (alt_cmd ''/opt/openssl-3.0.8'')) 1
     \<in> set (fst (snd (side_install_from_source broken_configure_host ''linux'' ''3.0.8'' None ()))) \<and>
   filter make_exec (fst (snd (side_install_from_source broken_configure_host ''linux'' ''3.0.8'' None ()))) = []"
proof -
  have m1: "Log None (join '' '' (cfg_cmd ''linux'' ''/opt/openssl-3.0.8'')) 1
     \<in> set (fst (snd (side_install_from_source broken_configure_host ''linux'' ''3.0.8'' None ())))"
    unfolding broken_events by (simp add: cfg_cmd_def)
  have m2: "Log None (join '' '' (alt_cmd ''/opt/openssl-3.0.8'')) 1
     \<in> set (fst (snd (side_install_from_source broken_configure_host ''linux'' ''3.0.8'' None ())))"
    unfolding broken_events by (simp add: alt_cmd_def)
  have p: "''/opt/openssl-3.0.8'' = (case None of None \<Rightarrow> ''/opt/openssl-'' @ ''3.0.8'' | Some q \<Rightarrow> q)"
    by simp
  have nz: "(1::int) \<noteq> 0" by simp
  note cf = configure_fallback [OF m1 nz p]
  have c1: "length (filter (is_exec_of (alt_cmd ''/opt/openssl-3.0.8''))
             (fst (snd (side_install_from_source broken_configure_host ''linux'' ''3.0.8'' None ())))) = 1"
    by (rule conjunct1 [OF cf])
  have c2: "filter make_exec (fst (snd (side_install_from_source broken_configure_host ''linux'' ''3.0.8'' None ()))) = [] \<and>
            (\<exists>st. fst (side_install_from_source broken_configure_host ''linux'' ''3.0.8'' None ()) = Inr (failed st))"
    by (rule mp [OF spec [OF conjunct2 [OF cf]]]) (rule conjI [OF m2 nz])
  from m1 c1 m2 conjunct1 [OF c2] show ?thesis by (intro conjI)
qed

end
